theory Spec2Isabelle
  imports Main
begin

unbundle bit_operations_syntax

section \<open>Faults\<close>

text \<open>
  The embedding is of the checked build of \<^verbatim>\<open>Constants.cpp\<close>: every \<^verbatim>\<open>assert\<close> and every
  \<^verbatim>\<open>DieAbjectly\<close> of the source is a fault branch of the model, carrying the source's message.
  \<open>NullContents\<close> is the dereference of a null \<^verbatim>\<open>Constant*\<close>, \<open>BadIndex\<close> an element access
  outside an aggregate.
\<close>

datatype error = AssertionFailed string | DieAbjectly string | NullContents | BadIndex

section \<open>Ranges\<close>

text \<open>
  Modelled from the spec: \<^verbatim>\<open>Range<int>\<close> lives in \<^verbatim>\<open>dragonegg/ADT/Range.h\<close>, which is not
  among the sources. The spec describes it as an integer half-open interval
  \<open>(first, last)\<close>, possibly negative, with invariant \<open>first \<le> last\<close>, empty when
  \<open>first = last\<close>, with containment, meet, join, displacement and a disjointness test.
  A pair with \<open>last < first\<close> (which \<open>Meet\<close> never builds here) is read as empty as well.
  The source relies on all empty ranges comparing equal (its assertion
  "Empty ranges did not evaluate as equal?"), so \<open>range_eq\<close> identifies them.
  Bit positions are mathematical integers: the source's \<^verbatim>\<open>int\<close>/\<^verbatim>\<open>unsigned\<close> mixture agrees
  with them as long as every position and width fits in 31 bits, and differences that the
  source stores in an \<^verbatim>\<open>unsigned\<close> are taken only after an assertion has made them
  non-negative.
\<close>

datatype SignedRange = SignedRange (First: int) (Last: int)

definition defaultRange :: SignedRange where
  "defaultRange = SignedRange 0 0"

definition empty_range :: "SignedRange \<Rightarrow> bool" where
  "empty_range r = (Last r \<le> First r)"

definition getWidth :: "SignedRange \<Rightarrow> int" where
  "getWidth r = (if empty_range r then 0 else Last r - First r)"

definition range_eq :: "SignedRange \<Rightarrow> SignedRange \<Rightarrow> bool" where
  "range_eq a b = ((empty_range a \<and> empty_range b) \<or> (First a = First b \<and> Last a = Last b))"

definition contains :: "SignedRange \<Rightarrow> SignedRange \<Rightarrow> bool" where
  "contains a b =
     (if empty_range b then True
      else if empty_range a then False
      else First a \<le> First b \<and> Last b \<le> Last a)"

definition intersects :: "SignedRange \<Rightarrow> SignedRange \<Rightarrow> bool" where
  "intersects a b =
     (if empty_range a \<or> empty_range b then False
      else First b < Last a \<and> First a < Last b)"

definition Displace :: "SignedRange \<Rightarrow> int \<Rightarrow> SignedRange" where
  "Displace r Offset = (if empty_range r then defaultRange else SignedRange (First r + Offset) (Last r + Offset))"

definition Join :: "SignedRange \<Rightarrow> SignedRange \<Rightarrow> SignedRange" where
  "Join a b =
     (if empty_range a then b
      else if empty_range b then a
      else SignedRange (min (First a) (First b)) (max (Last a) (Last b)))"

definition Meet :: "SignedRange \<Rightarrow> SignedRange \<Rightarrow> SignedRange" where
  "Meet a b =
     (if empty_range a \<or> empty_range b then defaultRange
      else let f = max (First a) (First b); l = min (Last a) (Last b)
           in if l \<le> f then defaultRange else SignedRange f l)"

section \<open>LLVM types and constants\<close>

text \<open>
  The LLVM library is outside the repository. Its types are a datatype with one
  constructor per \<^verbatim>\<open>TypeID\<close> the source switches on; \<open>VoidTy\<close>, \<open>LabelTy\<close> and
  \<open>MetadataTy\<close> stand for the kinds that reach the \<^verbatim>\<open>default:\<close> branches. Struct types are
  structural (element types and the packed flag), as \<^verbatim>\<open>ConstantStruct::get(Context, Elts, Pack)\<close>
  builds them.
\<close>

datatype Type =
    VoidTy
  | LabelTy
  | MetadataTy
  | IntegerTy nat
  | FloatTy
  | DoubleTy
  | X86_FP80Ty
  | FP128Ty
  | PPC_FP128Ty
  | X86_MMXTy
  | PointerTy Type
  | ArrayTy Type nat
  | StructTy "Type list" bool
  | VectorTy Type nat

text \<open>
  Constants are the folded constants the converter works with: an integer is its width
  and its value \<open>0 \<le> v < 2 ^ w\<close>, a floating-point or MMX constant is its kind and bit
  pattern, a pointer constant its pointee type and numeric address, \<open>UndefValue\<close> is the wholly
  undefined value of a type. Symbolic constant expressions (the address of a global) are
  not modelled. An array carries its element type, so that an empty array is typed.
\<close>

datatype FPKind = FloatK | DoubleK | X86_FP80K | FP128K | PPC_FP128K | X86_MMXK

fun fpType :: "FPKind \<Rightarrow> Type" where
  "fpType FloatK = FloatTy"
| "fpType DoubleK = DoubleTy"
| "fpType X86_FP80K = X86_FP80Ty"
| "fpType FP128K = FP128Ty"
| "fpType PPC_FP128K = PPC_FP128Ty"
| "fpType X86_MMXK = X86_MMXTy"

fun fpKind :: "Type \<Rightarrow> FPKind option" where
  "fpKind FloatTy = Some FloatK"
| "fpKind DoubleTy = Some DoubleK"
| "fpKind X86_FP80Ty = Some X86_FP80K"
| "fpKind FP128Ty = Some FP128K"
| "fpKind PPC_FP128Ty = Some PPC_FP128K"
| "fpKind X86_MMXTy = Some X86_MMXK"
| "fpKind _ = None"

datatype Constant =
    ConstantInt nat int
  | ConstantFP FPKind int
  | ConstantPointer Type int
  | UndefValue Type
  | ConstantArray Type "Constant list"
  | ConstantStruct bool "Constant list"
  | ConstantVector Type "Constant list"

fun getType :: "Constant \<Rightarrow> Type" where
  "getType (ConstantInt w v) = IntegerTy w"
| "getType (ConstantFP k v) = fpType k"
| "getType (ConstantPointer pointee v) = PointerTy pointee"
| "getType (UndefValue ty) = ty"
| "getType (ConstantArray ety cs) = ArrayTy ety (length cs)"
| "getType (ConstantStruct packed cs) = StructTy (map getType cs) packed"
| "getType (ConstantVector ety cs) = VectorTy ety (length cs)"

fun getPrimitiveSizeInBits :: "Type \<Rightarrow> nat" where
  "getPrimitiveSizeInBits (IntegerTy w) = w"
| "getPrimitiveSizeInBits FloatTy = 32"
| "getPrimitiveSizeInBits DoubleTy = 64"
| "getPrimitiveSizeInBits X86_FP80Ty = 80"
| "getPrimitiveSizeInBits FP128Ty = 128"
| "getPrimitiveSizeInBits PPC_FP128Ty = 128"
| "getPrimitiveSizeInBits X86_MMXTy = 64"
| "getPrimitiveSizeInBits (VectorTy ety n) = n * getPrimitiveSizeInBits ety"
| "getPrimitiveSizeInBits _ = 0"

fun isIntegerTy :: "Type \<Rightarrow> bool" where
  "isIntegerTy (IntegerTy w) = True"
| "isIntegerTy _ = False"

subsection \<open>The constant folder\<close>

text \<open>
  \<^verbatim>\<open>TheFolder\<close> is LLVM's constant folder. On integer constants its operations are the
  machine operations at the constant's width. On \<open>UndefValue\<close> they follow LLVM's folding
  rules: zero extension, shifts and \<^verbatim>\<open>and\<close> of an undefined value give zero, \<^verbatim>\<open>or\<close> gives
  all ones, truncation and bit casts keep it undefined. A shift by the width or more is
  undefined. An operand of the wrong kind, which LLVM rejects, gives \<open>UndefValue\<close> here;
  the code never builds one, because every \<open>BitSlice\<close> has integer contents.
\<close>

definition ConstantInt_get :: "Type \<Rightarrow> int \<Rightarrow> Constant" where
  "ConstantInt_get ty v = ConstantInt (getPrimitiveSizeInBits ty) (take_bit (getPrimitiveSizeInBits ty) v)"

fun CreateZExtOrBitCast :: "Constant \<Rightarrow> Type \<Rightarrow> Constant" where
  "CreateZExtOrBitCast c ty =
     (if getType c = ty then c
      else case c of
        ConstantInt w v \<Rightarrow> ConstantInt (getPrimitiveSizeInBits ty) v
      | UndefValue t \<Rightarrow> ConstantInt (getPrimitiveSizeInBits ty) 0
      | _ \<Rightarrow> UndefValue ty)"

fun CreateTruncOrBitCast :: "Constant \<Rightarrow> Type \<Rightarrow> Constant" where
  "CreateTruncOrBitCast c ty =
     (if getType c = ty then c
      else case c of
        ConstantInt w v \<Rightarrow> ConstantInt (getPrimitiveSizeInBits ty) (take_bit (getPrimitiveSizeInBits ty) v)
      | _ \<Rightarrow> UndefValue ty)"

fun CreateShl :: "Constant \<Rightarrow> Constant \<Rightarrow> Constant" where
  "CreateShl (ConstantInt w v) (ConstantInt w' k) =
     (if k < int w then ConstantInt w (take_bit w (push_bit (nat k) v)) else UndefValue (IntegerTy w))"
| "CreateShl (UndefValue ty) (ConstantInt w' k) = ConstantInt_get ty 0"
| "CreateShl (ConstantInt w v) (UndefValue ty) = ConstantInt w 0"
| "CreateShl c d = UndefValue (getType c)"

fun CreateLShr :: "Constant \<Rightarrow> Constant \<Rightarrow> Constant" where
  "CreateLShr (ConstantInt w v) (ConstantInt w' k) =
     (if k < int w then ConstantInt w (drop_bit (nat k) v) else UndefValue (IntegerTy w))"
| "CreateLShr (UndefValue ty) (ConstantInt w' k) = ConstantInt_get ty 0"
| "CreateLShr (ConstantInt w v) (UndefValue ty) = ConstantInt w 0"
| "CreateLShr c d = UndefValue (getType c)"

fun CreateAnd :: "Constant \<Rightarrow> Constant \<Rightarrow> Constant" where
  "CreateAnd (ConstantInt w v) (ConstantInt w' v') = ConstantInt w (v AND v')"
| "CreateAnd (UndefValue ty) (ConstantInt w' v') = ConstantInt_get ty 0"
| "CreateAnd (ConstantInt w v) (UndefValue ty) = ConstantInt w 0"
| "CreateAnd c d = UndefValue (getType c)"

fun CreateOr :: "Constant \<Rightarrow> Constant \<Rightarrow> Constant" where
  "CreateOr (ConstantInt w v) (ConstantInt w' v') = ConstantInt w (v OR v')"
| "CreateOr (UndefValue ty) (ConstantInt w' v') = ConstantInt_get ty (- 1)"
| "CreateOr (ConstantInt w v) (UndefValue ty) = ConstantInt w (take_bit w (- 1))"
| "CreateOr c d = UndefValue (getType c)"

text \<open>\<^verbatim>\<open>APInt::getBitsSet(numBits, loBit, hiBit)\<close>: the bits \<open>loBit \<le> i < hiBit\<close> set.\<close>

definition getBitsSet :: "nat \<Rightarrow> nat \<Rightarrow> nat \<Rightarrow> int" where
  "getBitsSet numBits loBit hiBit = take_bit numBits (push_bit loBit (mask (hiBit - loBit)))"

text \<open>\<^verbatim>\<open>ConstantInt::get(Context, ~Bits)\<close> for an \<^verbatim>\<open>APInt\<close> of the given width.\<close>

definition ConstantInt_not :: "nat \<Rightarrow> int \<Rightarrow> Constant" where
  "ConstantInt_not numBits bits = ConstantInt numBits (take_bit numBits (NOT bits))"

section \<open>BitSlice\<close>

datatype BitSlice = BitSlice (getRange: SignedRange) (Contents: "Constant option")

definition emptySlice :: BitSlice where
  "emptySlice = BitSlice defaultRange None"

definition contentsValid :: "SignedRange \<Rightarrow> Constant option \<Rightarrow> bool" where
  "contentsValid r c =
     (if empty_range r then c = None
      else case c of
        None \<Rightarrow> False
      | Some k \<Rightarrow> isIntegerTy (getType k) \<and> getWidth r = int (getPrimitiveSizeInBits (getType k)))"

text \<open>The two checked constructors \<^verbatim>\<open>BitSlice(r, contents)\<close> and \<^verbatim>\<open>BitSlice(first, last, contents)\<close>.\<close>

definition mkBitSlice :: "SignedRange \<Rightarrow> Constant option \<Rightarrow> error + BitSlice" where
  "mkBitSlice r c =
     (if contentsValid r c then Inr (BitSlice r c)
      else Inl (AssertionFailed ''Contents do not match range''))"

definition slice_empty :: "BitSlice \<Rightarrow> bool" where
  "slice_empty s = empty_range (getRange s)"

definition getBitWidth :: "BitSlice \<Rightarrow> nat" where
  "getBitWidth s = nat (getWidth (getRange s))"

definition DisplaceSlice :: "BitSlice \<Rightarrow> int \<Rightarrow> error + BitSlice" where
  "DisplaceSlice s Offset = mkBitSlice (Displace (getRange s) Offset) (Contents s)"

definition ExtendRange :: "bool \<Rightarrow> BitSlice \<Rightarrow> SignedRange \<Rightarrow> error + BitSlice" where
  "ExtendRange BYTES_BIG_ENDIAN s r =
     (if \<not> contains r (getRange s) then Inl (AssertionFailed ''Not an extension!'')
      else if range_eq (getRange s) r then Inr s
      else if empty_range r then Inl (AssertionFailed ''Empty ranges did not evaluate as equal?'')
      else
        let ExtTy = IntegerTy (nat (getWidth r)) in
        if slice_empty s then mkBitSlice r (Some (UndefValue ExtTy))
        else case Contents s of
          None \<Rightarrow> Inl NullContents
        | Some c \<Rightarrow>
            let C = CreateZExtOrBitCast c ExtTy;
                deltaFirst = nat (First (getRange s) - First r);
                deltaLast = nat (Last r - Last (getRange s));
                C' = (if BYTES_BIG_ENDIAN \<and> deltaLast \<noteq> 0
                        then CreateShl C (ConstantInt_get (getType C) (int deltaLast))
                      else if \<not> BYTES_BIG_ENDIAN \<and> deltaFirst \<noteq> 0
                        then CreateShl C (ConstantInt_get (getType C) (int deltaFirst))
                      else C)
            in mkBitSlice r (Some C'))"

definition ReduceRange :: "bool \<Rightarrow> BitSlice \<Rightarrow> SignedRange \<Rightarrow> error + BitSlice" where
  "ReduceRange BYTES_BIG_ENDIAN s r =
     (if \<not> contains (getRange s) r then Inl (AssertionFailed ''Not a reduction!'')
      else if range_eq (getRange s) r then Inr s
      else if empty_range r then Inr emptySlice
      else if slice_empty s then Inl (AssertionFailed ''Empty ranges did not evaluate as equal?'')
      else case Contents s of
        None \<Rightarrow> Inl NullContents
      | Some c \<Rightarrow>
          let deltaFirst = nat (First r - First (getRange s));
              deltaLast = nat (Last (getRange s) - Last r);
              C = (if BYTES_BIG_ENDIAN \<and> deltaLast \<noteq> 0
                     then CreateLShr c (ConstantInt_get (getType c) (int deltaLast))
                   else if \<not> BYTES_BIG_ENDIAN \<and> deltaFirst \<noteq> 0
                     then CreateLShr c (ConstantInt_get (getType c) (int deltaFirst))
                   else c);
              RedTy = IntegerTy (nat (getWidth r))
          in mkBitSlice r (Some (CreateTruncOrBitCast C RedTy)))"

text \<open>
  \<open>getBits\<close> returns a \<^verbatim>\<open>Constant*\<close>, null when the slice is empty and the requested range
  equals it; the result is therefore optional.
\<close>

definition getBits :: "bool \<Rightarrow> BitSlice \<Rightarrow> SignedRange \<Rightarrow> error + Constant option" where
  "getBits BYTES_BIG_ENDIAN s r =
     (if empty_range r then Inl (AssertionFailed ''Bit range is empty!'')
      else if range_eq (getRange s) r then Inr (Contents s)
      else if slice_empty s then Inr (Some (UndefValue (IntegerTy (nat (getWidth r)))))
      else case ExtendRange BYTES_BIG_ENDIAN s (Join (getRange s) r) of
        Inl e \<Rightarrow> Inl e
      | Inr Slice \<Rightarrow>
          (case ReduceRange BYTES_BIG_ENDIAN Slice r of
             Inl e \<Rightarrow> Inl e
           | Inr Slice' \<Rightarrow> Inr (Contents Slice')))"

text \<open>
  \<open>Merge\<close> updates \<^verbatim>\<open>*this\<close>; the model returns the new slice. \<open>getFirst\<close> and \<open>getLast\<close> of
  \<open>BitSlice\<close> return \<^verbatim>\<open>unsigned\<close>, and the mask positions are differences to the hull's
  ends, non-negative for slices inside the hull.
\<close>

definition Merge :: "bool \<Rightarrow> BitSlice \<Rightarrow> BitSlice \<Rightarrow> error + BitSlice" where
  "Merge BYTES_BIG_ENDIAN this other =
     (if slice_empty other then Inr this
      else if slice_empty this then Inr other
      else if intersects (getRange this) (getRange other) then Inl (AssertionFailed ''Slices overlap!'')
      else
        let Hull = Join (getRange this) (getRange other) in
        (case ExtendRange BYTES_BIG_ENDIAN this Hull of
          Inl e \<Rightarrow> Inl e
        | Inr ExtThis \<Rightarrow>
        (case ExtendRange BYTES_BIG_ENDIAN other Hull of
          Inl e \<Rightarrow> Inl e
        | Inr ExtOther \<Rightarrow>
        (let HullFirst = First Hull; HullLast = Last Hull;
            HullWidth = nat (getWidth Hull);
            ThisBits = (if BYTES_BIG_ENDIAN
                        then getBitsSet HullWidth (nat (HullLast - Last (getRange this)))
                                                  (nat (HullLast - First (getRange this)))
                        else getBitsSet HullWidth (nat (First (getRange this) - HullFirst))
                                                  (nat (Last (getRange this) - HullFirst)));
            OtherBits = (if BYTES_BIG_ENDIAN
                         then getBitsSet HullWidth (nat (HullLast - Last (getRange other)))
                                                   (nat (HullLast - First (getRange other)))
                         else getBitsSet HullWidth (nat (First (getRange other) - HullFirst))
                                                   (nat (Last (getRange other) - HullFirst)));
            ClearThis = ConstantInt_not HullWidth ThisBits;
            ClearOther = ConstantInt_not HullWidth OtherBits
        in (case Contents ExtThis of
              None \<Rightarrow> Inl NullContents
            | Some ct \<Rightarrow>
            (case Contents ExtOther of
              None \<Rightarrow> Inl NullContents
            | Some co \<Rightarrow>
               (let ThisPart = CreateAnd ct ClearOther;
                    OtherPart = CreateAnd co ClearThis
                in mkBitSlice Hull (Some (CreateOr ThisPart OtherPart)))))))))"

section \<open>The target's data layout\<close>

text \<open>
  \<^verbatim>\<open>TargetData\<close> is LLVM's layout oracle. The target is described by its pointer width and
  the ABI alignment, in bytes, of its integer, floating-point, pointer and vector types;
  sizes, aggregate alignments and struct layouts are computed from these as LLVM does:
  the store size is the size in bits rounded up to bytes, the alloc size is the store size
  rounded up to the ABI alignment, an array's size is its length times the alloc size of its
  element, and a struct places each element at the next multiple of its alignment (1 when
  packed) and pads its size to its own alignment.
\<close>

record TargetData =
  PointerSizeInBits :: nat
  ABIAlignment :: "Type \<Rightarrow> nat"

definition RoundUpAlignment :: "nat \<Rightarrow> nat \<Rightarrow> nat" where
  "RoundUpAlignment Val Alignment = (Val + Alignment - 1) div Alignment * Alignment"

fun getABITypeAlignment :: "TargetData \<Rightarrow> Type \<Rightarrow> nat" where
  "getABITypeAlignment TD (ArrayTy ety n) = getABITypeAlignment TD ety"
| "getABITypeAlignment TD (StructTy etys packed) =
     (if packed then 1
      else let a = foldr (\<lambda>ety m. max (getABITypeAlignment TD ety) m) etys 0
           in if a = 0 then 1 else a)"
| "getABITypeAlignment TD ty = ABIAlignment TD ty"

text \<open>
  \<open>layoutOffsets\<close> is the loop of LLVM's \<^verbatim>\<open>StructLayout\<close> constructor over the elements'
  (alignment, alloc size) pairs, in bytes: it returns the member offsets and the
  unpadded size.
\<close>

fun layoutOffsets :: "(nat \<times> nat) list \<Rightarrow> nat \<Rightarrow> nat list \<times> nat" where
  "layoutOffsets [] StructSize = ([], StructSize)"
| "layoutOffsets ((TyAlign, TySize) # es) StructSize =
     (let Offset = RoundUpAlignment StructSize TyAlign;
          (offs, sz) = layoutOffsets es (Offset + TySize)
      in (Offset # offs, sz))"


text \<open>
  \<open>layoutStruct\<close> lays a struct out from its element types and their sizes in bits:
  each element's alignment is 1 in a packed struct and its ABI alignment otherwise, and
  its alloc size is its store size rounded up to its ABI alignment.
\<close>

definition layoutStruct :: "TargetData \<Rightarrow> bool \<Rightarrow> Type list \<Rightarrow> nat list \<Rightarrow> nat list \<times> nat" where
  "layoutStruct TD packed etys sizes =
     layoutOffsets
       (map (\<lambda>(ety, bits). (if packed then 1 else getABITypeAlignment TD ety,
                              RoundUpAlignment ((bits + 7) div 8) (getABITypeAlignment TD ety)))
            (zip etys sizes)) 0"

primrec getTypeSizeInBits :: "TargetData \<Rightarrow> Type \<Rightarrow> nat" where
  "getTypeSizeInBits TD (IntegerTy w) = w"
| "getTypeSizeInBits TD FloatTy = 32"
| "getTypeSizeInBits TD DoubleTy = 64"
| "getTypeSizeInBits TD X86_FP80Ty = 80"
| "getTypeSizeInBits TD FP128Ty = 128"
| "getTypeSizeInBits TD PPC_FP128Ty = 128"
| "getTypeSizeInBits TD X86_MMXTy = 64"
| "getTypeSizeInBits TD (PointerTy pointee) = PointerSizeInBits TD"
| "getTypeSizeInBits TD LabelTy = PointerSizeInBits TD"
| "getTypeSizeInBits TD VoidTy = 8"
| "getTypeSizeInBits TD MetadataTy = 0"
| "getTypeSizeInBits TD (VectorTy ety n) = n * getPrimitiveSizeInBits ety"
| "getTypeSizeInBits TD (ArrayTy ety n) =
     n * (8 * RoundUpAlignment ((getTypeSizeInBits TD ety + 7) div 8) (getABITypeAlignment TD ety))"
| "getTypeSizeInBits TD (StructTy etys packed) =
     8 * RoundUpAlignment (snd (layoutStruct TD packed etys (map (getTypeSizeInBits TD) etys)))
                          (getABITypeAlignment TD (StructTy etys packed))"

definition getTypeStoreSize :: "TargetData \<Rightarrow> Type \<Rightarrow> nat" where
  "getTypeStoreSize TD ty = (getTypeSizeInBits TD ty + 7) div 8"

definition getTypeStoreSizeInBits :: "TargetData \<Rightarrow> Type \<Rightarrow> nat" where
  "getTypeStoreSizeInBits TD ty = 8 * getTypeStoreSize TD ty"

definition getTypeAllocSize :: "TargetData \<Rightarrow> Type \<Rightarrow> nat" where
  "getTypeAllocSize TD ty = RoundUpAlignment (getTypeStoreSize TD ty) (getABITypeAlignment TD ty)"

definition getTypeAllocSizeInBits :: "TargetData \<Rightarrow> Type \<Rightarrow> nat" where
  "getTypeAllocSizeInBits TD ty = 8 * getTypeAllocSize TD ty"

definition getIntPtrType :: "TargetData \<Rightarrow> Type" where
  "getIntPtrType TD = IntegerTy (PointerSizeInBits TD)"

text \<open>\<^verbatim>\<open>StructLayout\<close>: the member offsets of a struct type, in bytes.\<close>

definition getStructLayout :: "TargetData \<Rightarrow> Type list \<Rightarrow> bool \<Rightarrow> nat list" where
  "getStructLayout TD etys packed = fst (layoutStruct TD packed etys (map (getTypeSizeInBits TD) etys))"

text \<open>
  \<^verbatim>\<open>getElementContainingOffset\<close>: the last member whose offset is at most \<open>Offset\<close>
  (LLVM searches the sorted offsets with \<^verbatim>\<open>upper_bound\<close> and steps back one); it asserts
  that there is one.
\<close>

definition getElementContainingOffset :: "nat list \<Rightarrow> nat \<Rightarrow> error + nat" where
  "getElementContainingOffset MemberOffsets Offset =
     (let n = length (takeWhile (\<lambda>off. off \<le> Offset) MemberOffsets)
      in if n = 0 then Inl (AssertionFailed ''Offset not in structure type!'') else Inr (n - 1))"

subsection \<open>Casts and element access of the folder\<close>

fun CreateBitCast :: "Constant \<Rightarrow> Type \<Rightarrow> Constant" where
  "CreateBitCast c ty =
     (if getType c = ty then c
      else case c of
        ConstantInt w v \<Rightarrow> (case fpKind ty of Some k \<Rightarrow> ConstantFP k v | None \<Rightarrow> UndefValue ty)
      | ConstantFP k v \<Rightarrow> (case ty of IntegerTy w \<Rightarrow> ConstantInt w v | _ \<Rightarrow> UndefValue ty)
      | ConstantPointer pointee v \<Rightarrow> (case ty of PointerTy t \<Rightarrow> ConstantPointer t v | _ \<Rightarrow> UndefValue ty)
      | _ \<Rightarrow> UndefValue ty)"

fun CreatePtrToInt :: "Constant \<Rightarrow> Type \<Rightarrow> Constant" where
  "CreatePtrToInt (ConstantPointer pointee v) ty = ConstantInt_get ty v"
| "CreatePtrToInt c ty = UndefValue ty"

fun CreateIntToPtr :: "Constant \<Rightarrow> Type \<Rightarrow> Constant" where
  "CreateIntToPtr (ConstantInt w v) (PointerTy pointee) = ConstantPointer pointee v"
| "CreateIntToPtr c ty = UndefValue ty"

text \<open>
  \<^verbatim>\<open>CreateExtractValue(C, &i, 1)\<close> and \<^verbatim>\<open>CreateExtractElement(C, Idx)\<close>: the element of an
  aggregate constant, undefined for an undefined aggregate.
\<close>

fun CreateExtractValue :: "Constant \<Rightarrow> nat \<Rightarrow> error + Constant" where
  "CreateExtractValue (ConstantArray ety cs) i = (if i < length cs then Inr (cs ! i) else Inl BadIndex)"
| "CreateExtractValue (ConstantStruct packed cs) i = (if i < length cs then Inr (cs ! i) else Inl BadIndex)"
| "CreateExtractValue (UndefValue (ArrayTy ety n)) i = (if i < n then Inr (UndefValue ety) else Inl BadIndex)"
| "CreateExtractValue (UndefValue (StructTy etys packed)) i =
     (if i < length etys then Inr (UndefValue (etys ! i)) else Inl BadIndex)"
| "CreateExtractValue c i = Inl BadIndex"

fun CreateExtractElement :: "Constant \<Rightarrow> nat \<Rightarrow> error + Constant" where
  "CreateExtractElement (ConstantVector ety cs) i = (if i < length cs then Inr (cs ! i) else Inl BadIndex)"
| "CreateExtractElement (UndefValue (VectorTy ety n)) i = (if i < n then Inr (UndefValue ety) else Inl BadIndex)"
| "CreateExtractElement c i = Inl BadIndex"

primrec tyWeight :: "Type \<Rightarrow> nat" where
  "tyWeight (ArrayTy t n) = Suc (tyWeight t)"
| "tyWeight (VectorTy t n) = Suc (tyWeight t)"
| "tyWeight (StructTy ts packed) = Suc (sum_list (map tyWeight ts))"
| "tyWeight VoidTy = 0"
| "tyWeight LabelTy = 0"
| "tyWeight MetadataTy = 0"
| "tyWeight (IntegerTy w) = 0"
| "tyWeight FloatTy = 0"
| "tyWeight DoubleTy = 0"
| "tyWeight X86_FP80Ty = 0"
| "tyWeight FP128Ty = 0"
| "tyWeight PPC_FP128Ty = 0"
| "tyWeight X86_MMXTy = 0"
| "tyWeight (PointerTy t) = 0"

primrec constWeight :: "Constant \<Rightarrow> nat" where
  "constWeight (UndefValue ty) = tyWeight ty"
| "constWeight (ConstantArray ety cs) = Suc (sum_list (map constWeight cs))"
| "constWeight (ConstantStruct packed cs) = Suc (sum_list (map constWeight cs))"
| "constWeight (ConstantVector ety cs) = Suc (sum_list (map constWeight cs))"
| "constWeight (ConstantInt w v) = 0"
| "constWeight (ConstantFP k v) = 0"
| "constWeight (ConstantPointer t v) = 0"

lemma sum_list_nth_le: "i < length xs \<Longrightarrow> (f (xs ! i) :: nat) \<le> sum_list (map f xs)"
proof (induction xs arbitrary: i)
  case Nil
  then show ?case by simp
next
  case (Cons a xs)
  then show ?case by (cases i) (auto simp: trans_le_add2)
qed

lemma CreateExtractValue_weight:
  "CreateExtractValue c i = Inr e \<Longrightarrow> constWeight e < constWeight c"
proof (induction c i rule: CreateExtractValue.induct)
  case (1 ety cs i)
  then show ?case using sum_list_nth_le[of i cs constWeight] by (auto split: if_splits)
next
  case (2 packed cs i)
  then show ?case using sum_list_nth_le[of i cs constWeight] by (auto split: if_splits)
next
  case (3 ety n i)
  then show ?case by (auto split: if_splits)
next
  case (4 etys packed i)
  then show ?case using sum_list_nth_le[of i etys tyWeight] by (auto split: if_splits)
qed simp_all

lemma CreateExtractElement_weight:
  "CreateExtractElement c i = Inr e \<Longrightarrow> constWeight e < constWeight c"
proof (induction c i rule: CreateExtractElement.induct)
  case (1 ety cs i)
  then show ?case using sum_list_nth_le[of i cs constWeight] by (auto split: if_splits)
next
  case (2 ety n i)
  then show ?case by (auto split: if_splits)
qed simp_all


section \<open>ViewAsBits and InterpretAsType\<close>

text \<open>
  One step of the accumulation loops of \<open>ViewAsBits\<close>:
  \<^verbatim>\<open>Bits.Merge(EltBits.Displace(Offset))\<close>.
\<close>

definition accumulate :: "bool \<Rightarrow> error + BitSlice \<Rightarrow> error + BitSlice \<Rightarrow> int \<Rightarrow> error + BitSlice" where
  "accumulate BYTES_BIG_ENDIAN Bits EltBits Offset =
     (case Bits of
        Inl e \<Rightarrow> Inl e
      | Inr bits \<Rightarrow>
          (case EltBits of
             Inl e \<Rightarrow> Inl e
           | Inr eb \<Rightarrow>
               (case DisplaceSlice eb Offset of
                  Inl e \<Rightarrow> Inl e
                | Inr d \<Rightarrow> Merge BYTES_BIG_ENDIAN bits d)))"

text \<open>
  The pointer case, the scalar cases and the \<^verbatim>\<open>default:\<close> case of the switch of
  \<open>ViewAsBits\<close>; the aggregate cases are in the recursive function below.
\<close>

definition ViewScalarAsBits :: "TargetData \<Rightarrow> bool \<Rightarrow> Constant \<Rightarrow> nat \<Rightarrow> error + BitSlice" where
  "ViewScalarAsBits TD BYTES_BIG_ENDIAN C StoreSize =
     (let Ty = getType C in
      case Ty of
        PointerTy pointee \<Rightarrow>
          mkBitSlice (SignedRange 0 (int StoreSize)) (Some (CreatePtrToInt C (getIntPtrType TD)))
      | VoidTy \<Rightarrow> Inl (DieAbjectly ''Unsupported type!'')
      | LabelTy \<Rightarrow> Inl (DieAbjectly ''Unsupported type!'')
      | MetadataTy \<Rightarrow> Inl (DieAbjectly ''Unsupported type!'')
      | _ \<Rightarrow>
          (let BitWidth = getPrimitiveSizeInBits Ty;
               C' = CreateBitCast C (IntegerTy BitWidth)
           in if BYTES_BIG_ENDIAN
              then mkBitSlice (SignedRange (int StoreSize - int BitWidth) (int StoreSize)) (Some C')
              else mkBitSlice (SignedRange 0 (int BitWidth)) (Some C')))"

function ViewAsBits :: "TargetData \<Rightarrow> bool \<Rightarrow> Constant \<Rightarrow> SignedRange \<Rightarrow> error + BitSlice" where
  "ViewAsBits TD BYTES_BIG_ENDIAN C R0 =
     (if empty_range R0 then Inr emptySlice
      else
        let Ty = getType C;
            StoreSize = getTypeStoreSizeInBits TD Ty;
            R = Meet R0 (SignedRange 0 (int StoreSize))
        in
        if empty_range R then Inr emptySlice
        else if \<not> 0 < StoreSize then Inl (AssertionFailed ''Empty range not eliminated?'')
        else case Ty of
          ArrayTy EltTy NumElts \<Rightarrow>
            (let Stride = getTypeAllocSizeInBits TD EltTy in
             if \<not> 0 < Stride then Inl (AssertionFailed ''Store size smaller than alloc size?'')
             else
               let FirstElt = nat (First R) div Stride;
                   LastElt = (nat (Last R) + Stride - 1) div Stride
               in if \<not> LastElt \<le> NumElts then Inl (AssertionFailed ''Store size bigger than array?'')
               else fold (\<lambda>i Bits.
                      case CreateExtractValue C i of
                        Inl e \<Rightarrow> Inl e
                      | Inr Elt \<Rightarrow>
                          accumulate BYTES_BIG_ENDIAN Bits
                            (ViewAsBits TD BYTES_BIG_ENDIAN Elt (SignedRange 0 (int Stride)))
                            (int (i * Stride)))
                    [FirstElt ..< LastElt] (Inr emptySlice))
        | StructTy etys packed \<Rightarrow>
            (let SL = getStructLayout TD etys packed in
             case getElementContainingOffset SL (nat ((First R + 7) div 8)) of
               Inl e \<Rightarrow> Inl e
             | Inr FirstIdx \<Rightarrow>
             (case getElementContainingOffset SL (nat ((Last R + 6) div 8)) of
               Inl e \<Rightarrow> Inl e
             | Inr li \<Rightarrow>
                 (let LastIdx = 1 + li in
                  fold (\<lambda>i Bits.
                      case CreateExtractValue C i of
                        Inl e \<Rightarrow> Inl e
                      | Inr Fld \<Rightarrow>
                          accumulate BYTES_BIG_ENDIAN Bits
                            (ViewAsBits TD BYTES_BIG_ENDIAN Fld
                               (SignedRange 0 (int (getTypeStoreSizeInBits TD (getType Fld)))))
                            (int (SL ! i * 8)))
                    [FirstIdx ..< LastIdx] (Inr emptySlice))))
        | VectorTy EltTy NumElts \<Rightarrow>
            (let Stride = getTypeAllocSizeInBits TD EltTy in
             if \<not> 0 < Stride then Inl (AssertionFailed ''Store size smaller than alloc size?'')
             else
               let FirstElt = nat (First R) div Stride;
                   LastElt = (nat (Last R) + Stride - 1) div Stride
               in if \<not> LastElt \<le> NumElts then Inl (AssertionFailed ''Store size bigger than vector?'')
               else fold (\<lambda>i Bits.
                      case CreateExtractElement C i of
                        Inl e \<Rightarrow> Inl e
                      | Inr Elt \<Rightarrow>
                          accumulate BYTES_BIG_ENDIAN Bits
                            (ViewAsBits TD BYTES_BIG_ENDIAN Elt (SignedRange 0 (int Stride)))
                            (int (i * Stride)))
                    [FirstElt ..< LastElt] (Inr emptySlice))
        | _ \<Rightarrow> ViewScalarAsBits TD BYTES_BIG_ENDIAN C StoreSize)"
  by pat_completeness auto
termination
  by (relation "measure (\<lambda>(TD, be, C, R). constWeight C)")
     (auto dest: CreateExtractValue_weight CreateExtractElement_weight)

text \<open>Collecting the results of a loop whose body can fault: the first fault wins.\<close>

fun sequence_err :: "(error + 'a) list \<Rightarrow> error + 'a list" where
  "sequence_err [] = Inr []"
| "sequence_err (Inl e # xs) = Inl e"
| "sequence_err (Inr x # xs) = (case sequence_err xs of Inl e \<Rightarrow> Inl e | Inr ys \<Rightarrow> Inr (x # ys))"

text \<open>The \<^verbatim>\<open>IntegerTyID\<close> case of \<open>InterpretAsType\<close>.\<close>

definition InterpretAsInteger :: "TargetData \<Rightarrow> bool \<Rightarrow> Constant \<Rightarrow> Type \<Rightarrow> int \<Rightarrow> error + Constant" where
  "InterpretAsInteger TD BYTES_BIG_ENDIAN C Ty StartingBit =
     (let BitWidth = getPrimitiveSizeInBits Ty;
          StoreSize = getTypeStoreSizeInBits TD Ty
      in case ViewAsBits TD BYTES_BIG_ENDIAN C (SignedRange StartingBit (StartingBit + int StoreSize)) of
           Inl e \<Rightarrow> Inl e
         | Inr Bits \<Rightarrow>
             (case DisplaceSlice Bits (- StartingBit) of
                Inl e \<Rightarrow> Inl e
              | Inr Bits' \<Rightarrow>
                  (case (if BYTES_BIG_ENDIAN
                         then getBits BYTES_BIG_ENDIAN Bits' (SignedRange (int StoreSize - int BitWidth) (int StoreSize))
                         else getBits BYTES_BIG_ENDIAN Bits' (SignedRange 0 (int BitWidth))) of
                     Inl e \<Rightarrow> Inl e
                   | Inr None \<Rightarrow> Inl NullContents
                   | Inr (Some c) \<Rightarrow> Inr c)))"

primrec tyRank :: "Type \<Rightarrow> nat" where
  "tyRank (ArrayTy t n) = Suc (Suc (tyRank t))"
| "tyRank (VectorTy t n) = Suc (Suc (tyRank t))"
| "tyRank (StructTy ts packed) = Suc (Suc (sum_list (map tyRank ts)))"
| "tyRank VoidTy = 1"
| "tyRank LabelTy = 1"
| "tyRank MetadataTy = 1"
| "tyRank (IntegerTy w) = 0"
| "tyRank FloatTy = 1"
| "tyRank DoubleTy = 1"
| "tyRank X86_FP80Ty = 1"
| "tyRank FP128Ty = 1"
| "tyRank PPC_FP128Ty = 1"
| "tyRank X86_MMXTy = 1"
| "tyRank (PointerTy t) = 1"

lemma tyRank_nth: "i < length ts \<Longrightarrow> tyRank (ts ! i) < Suc (Suc (sum_list (map tyRank ts)))"
  using sum_list_nth_le[of i ts tyRank] by simp

function InterpretAsType :: "TargetData \<Rightarrow> bool \<Rightarrow> Constant \<Rightarrow> Type \<Rightarrow> int \<Rightarrow> error + Constant" where
  "InterpretAsType TD BYTES_BIG_ENDIAN C Ty StartingBit =
     (if getType C = Ty then Inr C
      else case Ty of
        IntegerTy w \<Rightarrow> InterpretAsInteger TD BYTES_BIG_ENDIAN C Ty StartingBit
      | PointerTy pointee \<Rightarrow>
          (case InterpretAsType TD BYTES_BIG_ENDIAN C (getIntPtrType TD) StartingBit of
             Inl e \<Rightarrow> Inl e
           | Inr C' \<Rightarrow> Inr (CreateIntToPtr C' Ty))
      | ArrayTy EltTy NumElts \<Rightarrow>
          (let Stride = getTypeAllocSizeInBits TD EltTy in
           case sequence_err (map (\<lambda>i. InterpretAsType TD BYTES_BIG_ENDIAN C EltTy
                                            (StartingBit + int (i * Stride))) [0 ..< NumElts]) of
             Inl e \<Rightarrow> Inl e
           | Inr Vals \<Rightarrow> Inr (ConstantArray EltTy Vals))
      | StructTy etys packed \<Rightarrow>
          (let SL = getStructLayout TD etys packed in
           case sequence_err (map (\<lambda>i. InterpretAsType TD BYTES_BIG_ENDIAN C (etys ! i)
                                            (StartingBit + int (SL ! i * 8))) [0 ..< length etys]) of
             Inl e \<Rightarrow> Inl e
           | Inr Vals \<Rightarrow> Inr (ConstantStruct packed Vals))
      | VectorTy EltTy NumElts \<Rightarrow>
          (let Stride = getTypeAllocSizeInBits TD EltTy in
           case sequence_err (map (\<lambda>i. InterpretAsType TD BYTES_BIG_ENDIAN C EltTy
                                            (StartingBit + int (i * Stride))) [0 ..< NumElts]) of
             Inl e \<Rightarrow> Inl e
           | Inr Vals \<Rightarrow> Inr (ConstantVector EltTy Vals))
      | VoidTy \<Rightarrow> Inl (DieAbjectly ''Unsupported type!'')
      | LabelTy \<Rightarrow> Inl (DieAbjectly ''Unsupported type!'')
      | MetadataTy \<Rightarrow> Inl (DieAbjectly ''Unsupported type!'')
      | _ \<Rightarrow>
          (let BitWidth = getPrimitiveSizeInBits Ty; IntTy = IntegerTy BitWidth in
           case InterpretAsType TD BYTES_BIG_ENDIAN C IntTy StartingBit of
             Inl e \<Rightarrow> Inl e
           | Inr C' \<Rightarrow> Inr (CreateBitCast C' Ty)))"
  by pat_completeness auto
termination
  by (relation "measure (\<lambda>(TD, be, C, Ty, StartingBit). tyRank Ty)")
     (auto simp: getIntPtrType_def tyRank_nth)

section \<open>FieldContents\<close>

text \<open>GCC's \<^verbatim>\<open>BITS_PER_UNIT\<close>, the number of bits in an addressable unit, taken to be 8.\<close>

definition BITS_PER_UNIT :: nat where
  "BITS_PER_UNIT = 8"

text \<open>
  Modelled from the spec: \<^verbatim>\<open>GetUnitType\<close> is declared outside the sources. The spec speaks
  of filler "of the missing byte count" and the source of "an array of bytes" and, for no
  units, of "an empty array": one unit is the integer of \<^verbatim>\<open>BITS_PER_UNIT\<close> bits, any other
  number of units an array of them.
\<close>

definition GetUnitType :: "nat \<Rightarrow> Type" where
  "GetUnitType NumUnits =
     (if NumUnits = 1 then IntegerTy BITS_PER_UNIT else ArrayTy (IntegerTy BITS_PER_UNIT) NumUnits)"

text \<open>
  A constant together with the range of bits it occupies: \<open>fieldRange\<close> is the member \<^verbatim>\<open>R\<close>,
  \<open>fieldConstant\<close> the member \<^verbatim>\<open>C\<close> (null allowed when the range is empty) and \<open>Starts\<close> the
  position of the first bit of the constant. \<open>mkFieldContents\<close> is the private constructor
  with its assertion.
\<close>

datatype FieldContents =
  FieldContents (fieldRange: SignedRange) (fieldConstant: "Constant option") (Starts: int)

definition mkFieldContents :: "SignedRange \<Rightarrow> Constant option \<Rightarrow> int \<Rightarrow> error + FieldContents" where
  "mkFieldContents r c starts =
     (if empty_range r \<or> c \<noteq> None then Inr (FieldContents r c starts)
      else Inl (AssertionFailed ''Need constant when range not empty!''))"

definition FieldContents_default :: FieldContents where
  "FieldContents_default = FieldContents defaultRange None 0"

definition FieldContents_get :: "int \<Rightarrow> int \<Rightarrow> Constant \<Rightarrow> error + FieldContents" where
  "FieldContents_get first_bit last_bit c = mkFieldContents (SignedRange first_bit last_bit) (Some c) first_bit"

definition ChangeRangeTo :: "FieldContents \<Rightarrow> SignedRange \<Rightarrow> FieldContents" where
  "ChangeRangeTo F r = FieldContents r (fieldConstant F) (Starts F)"

text \<open>The bits in the range as an integer, or null (\<open>None\<close>) if the range is empty.\<close>

definition getAsBits :: "TargetData \<Rightarrow> bool \<Rightarrow> FieldContents \<Rightarrow> error + Constant option" where
  "getAsBits TD BYTES_BIG_ENDIAN F =
     (if empty_range (fieldRange F) then Inr None
      else case fieldConstant F of
        None \<Rightarrow> Inl NullContents
      | Some c \<Rightarrow>
          (case InterpretAsType TD BYTES_BIG_ENDIAN c (IntegerTy (nat (getWidth (fieldRange F))))
                  (First (fieldRange F) - Starts F) of
             Inl e \<Rightarrow> Inl e
           | Inr b \<Rightarrow> Inr (Some b)))"

text \<open>Whether the constant represents the bits in the range as it is.\<close>

definition isSafeToReturnContentsDirectly :: "TargetData \<Rightarrow> FieldContents \<Rightarrow> bool" where
  "isSafeToReturnContentsDirectly TD F =
     (case fieldConstant F of
        None \<Rightarrow> False
      | Some c \<Rightarrow>
          if \<not> empty_range (fieldRange F) \<and> First (fieldRange F) \<noteq> Starts F then False
          else getTypeAllocSizeInBits TD (getType c) \<le> nat (getWidth (fieldRange F)))"

text \<open>
  \<open>extractContents\<close> stores the constant it computes in the object; the model returns the
  constant together with the updated object.
\<close>

definition extractContents :: "TargetData \<Rightarrow> bool \<Rightarrow> FieldContents \<Rightarrow> error + Constant \<times> FieldContents" where
  "extractContents TD BYTES_BIG_ENDIAN F =
     (if isSafeToReturnContentsDirectly TD F then
        (case fieldConstant F of None \<Rightarrow> Inl NullContents | Some c \<Rightarrow> Inr (c, F))
      else if empty_range (fieldRange F) then
        (let c = UndefValue (GetUnitType 0);
             F' = FieldContents (fieldRange F) (Some c) (Starts F)
         in if \<not> isSafeToReturnContentsDirectly TD F' then Inl (AssertionFailed ''Unit over aligned?'')
            else Inr (c, F'))
      else if nat (getWidth (fieldRange F)) mod BITS_PER_UNIT \<noteq> 0
        then Inl (AssertionFailed ''Boundaries not aligned?'')
      else
        let Units = nat (getWidth (fieldRange F)) div BITS_PER_UNIT in
        case getAsBits TD BYTES_BIG_ENDIAN F of
          Inl e \<Rightarrow> Inl e
        | Inr None \<Rightarrow> Inl NullContents
        | Inr (Some b) \<Rightarrow>
            (let F1 = FieldContents (fieldRange F) (Some b) (First (fieldRange F)) in
             if isSafeToReturnContentsDirectly TD F1 then Inr (b, F1)
             else case InterpretAsType TD BYTES_BIG_ENDIAN b (GetUnitType Units) 0 of
               Inl e \<Rightarrow> Inl e
             | Inr a \<Rightarrow>
                 (let F2 = FieldContents (fieldRange F) (Some a) (First (fieldRange F)) in
                  if \<not> isSafeToReturnContentsDirectly TD F2 then Inl (AssertionFailed ''Unit over aligned?'')
                  else Inr (a, F2))))"

text \<open>The union of two fields: their bits pasted together over the convex hull.\<close>

definition JoinWith :: "TargetData \<Rightarrow> bool \<Rightarrow> FieldContents \<Rightarrow> FieldContents \<Rightarrow> error + FieldContents" where
  "JoinWith TD BYTES_BIG_ENDIAN F S =
     (case getAsBits TD BYTES_BIG_ENDIAN F of
        Inl e \<Rightarrow> Inl e
      | Inr fb \<Rightarrow>
      (case mkBitSlice (fieldRange F) fb of
        Inl e \<Rightarrow> Inl e
      | Inr Bits \<Rightarrow>
      (case getAsBits TD BYTES_BIG_ENDIAN S of
        Inl e \<Rightarrow> Inl e
      | Inr sb \<Rightarrow>
      (case mkBitSlice (fieldRange S) sb of
        Inl e \<Rightarrow> Inl e
      | Inr SBits \<Rightarrow>
      (case Merge BYTES_BIG_ENDIAN Bits SBits of
        Inl e \<Rightarrow> Inl e
      | Inr Bits' \<Rightarrow>
          (let R = getRange Bits' in
           case getBits BYTES_BIG_ENDIAN Bits' R of
             Inl e \<Rightarrow> Inl e
           | Inr c \<Rightarrow> Inr (FieldContents R c (if empty_range R then 0 else First R))))))))"

section \<open>GCC trees\<close>

text \<open>
  GCC's \<^verbatim>\<open>tree\<close> nodes are outside the repository. The model has one datatype for all
  nodes, so that an accessor or a predicate can be applied to any node, as in C; each
  class of nodes carries the attributes the converter reads:
  \<^item> \<open>INTEGER_CST type v\<close>: an integer constant and its value;
  \<^item> \<open>CST code type id\<close>: a real, complex, vector or fixed-point constant;
  \<^item> \<open>STRING_CST type bytes\<close>: \<^verbatim>\<open>TREE_STRING_POINTER\<close> as bytes, \<^verbatim>\<open>TREE_STRING_LENGTH\<close> their number;
  \<^item> \<open>CONSTRUCTOR type elts\<close>: \<^verbatim>\<open>CONSTRUCTOR_ELTS\<close> as (index, value) pairs;
  \<^item> \<open>EXPR code type operands\<close>: every other expression;
  \<^item> \<open>DECL code uid type size chain\<close>: a declaration with \<^verbatim>\<open>TREE_TYPE\<close>, \<^verbatim>\<open>DECL_SIZE\<close> and
    \<^verbatim>\<open>TREE_CHAIN\<close>;
  \<^item> \<open>TYPE_NODE code uid size size_unit align unsigned precision elt domain fields min max subparts\<close>:
    a type with \<^verbatim>\<open>TYPE_SIZE\<close>, \<^verbatim>\<open>TYPE_SIZE_UNIT\<close>, \<^verbatim>\<open>TYPE_ALIGN\<close>, \<^verbatim>\<open>TYPE_UNSIGNED\<close>,
    \<^verbatim>\<open>TYPE_PRECISION\<close>, \<^verbatim>\<open>TREE_TYPE\<close>, \<^verbatim>\<open>TYPE_DOMAIN\<close>, \<^verbatim>\<open>TYPE_FIELDS\<close>, \<^verbatim>\<open>TYPE_MIN_VALUE\<close>,
    \<^verbatim>\<open>TYPE_MAX_VALUE\<close> and \<^verbatim>\<open>TYPE_VECTOR_SUBPARTS\<close>.
  The \<open>uid\<close> of a type or declaration stands for the node's identity: the source
  compares types by pointer.
\<close>

datatype tree_code =
    ERROR_MARK
  | INTEGER_CST_CODE | REAL_CST | COMPLEX_CST | VECTOR_CST | FIXED_CST | STRING_CST_CODE
  | ADDR_EXPR | CONSTRUCTOR_CODE | CONVERT_EXPR | NOP_EXPR | MINUS_EXPR | PLUS_EXPR
  | POINTER_PLUS_EXPR | VIEW_CONVERT_EXPR | RANGE_EXPR
  | FIELD_DECL | TYPE_DECL | VAR_DECL
  | VOID_TYPE | INTEGER_TYPE | REAL_TYPE | POINTER_TYPE
  | ARRAY_TYPE | VECTOR_TYPE | RECORD_TYPE | UNION_TYPE | QUAL_UNION_TYPE

datatype tree =
    NULL_TREE
  | INTEGER_CST tree int
  | CST tree_code tree nat
  | STRING_CST tree "nat list"
  | CONSTRUCTOR tree "(tree \<times> tree) list"
  | EXPR tree_code tree "tree list"
  | DECL tree_code nat tree tree tree
  | TYPE_NODE tree_code nat tree tree nat bool nat tree tree tree tree tree nat

fun TREE_CODE :: "tree \<Rightarrow> tree_code" where
  "TREE_CODE NULL_TREE = ERROR_MARK"
| "TREE_CODE (INTEGER_CST ty v) = INTEGER_CST_CODE"
| "TREE_CODE (CST code ty n) = code"
| "TREE_CODE (STRING_CST ty bs) = STRING_CST_CODE"
| "TREE_CODE (CONSTRUCTOR ty elts) = CONSTRUCTOR_CODE"
| "TREE_CODE (EXPR code ty ops) = code"
| "TREE_CODE (DECL code uid ty sz nxt) = code"
| "TREE_CODE (TYPE_NODE code uid sz szu al un pr elt dmn flds mn mx nsub) = code"

fun TREE_TYPE :: "tree \<Rightarrow> tree" where
  "TREE_TYPE NULL_TREE = NULL_TREE"
| "TREE_TYPE (INTEGER_CST ty v) = ty"
| "TREE_TYPE (CST code ty n) = ty"
| "TREE_TYPE (STRING_CST ty bs) = ty"
| "TREE_TYPE (CONSTRUCTOR ty elts) = ty"
| "TREE_TYPE (EXPR code ty ops) = ty"
| "TREE_TYPE (DECL code uid ty sz nxt) = ty"
| "TREE_TYPE (TYPE_NODE code uid sz szu al un pr elt dmn flds mn mx nsub) = elt"

fun TREE_OPERAND :: "tree \<Rightarrow> nat \<Rightarrow> tree" where
  "TREE_OPERAND (EXPR code ty ops) i = (if i < length ops then ops ! i else NULL_TREE)"
| "TREE_OPERAND t i = NULL_TREE"

fun CONSTRUCTOR_ELTS :: "tree \<Rightarrow> (tree \<times> tree) list" where
  "CONSTRUCTOR_ELTS (CONSTRUCTOR ty elts) = elts"
| "CONSTRUCTOR_ELTS t = []"

definition CONSTRUCTOR_NELTS :: "tree \<Rightarrow> nat" where
  "CONSTRUCTOR_NELTS t = length (CONSTRUCTOR_ELTS t)"

fun TREE_CHAIN :: "tree \<Rightarrow> tree" where
  "TREE_CHAIN (DECL code uid ty sz nxt) = nxt"
| "TREE_CHAIN t = NULL_TREE"

fun DECL_SIZE :: "tree \<Rightarrow> tree" where
  "DECL_SIZE (DECL code uid ty sz nxt) = sz"
| "DECL_SIZE t = NULL_TREE"

fun TYPE_SIZE :: "tree \<Rightarrow> tree" where
  "TYPE_SIZE (TYPE_NODE code uid sz szu al un pr elt dmn flds mn mx nsub) = sz"
| "TYPE_SIZE t = NULL_TREE"

fun TYPE_SIZE_UNIT :: "tree \<Rightarrow> tree" where
  "TYPE_SIZE_UNIT (TYPE_NODE code uid sz szu al un pr elt dmn flds mn mx nsub) = szu"
| "TYPE_SIZE_UNIT t = NULL_TREE"

fun TYPE_ALIGN :: "tree \<Rightarrow> nat" where
  "TYPE_ALIGN (TYPE_NODE code uid sz szu al un pr elt dmn flds mn mx nsub) = al"
| "TYPE_ALIGN t = 0"

fun TYPE_UNSIGNED :: "tree \<Rightarrow> bool" where
  "TYPE_UNSIGNED (TYPE_NODE code uid sz szu al un pr elt dmn flds mn mx nsub) = un"
| "TYPE_UNSIGNED t = False"

fun TYPE_PRECISION :: "tree \<Rightarrow> nat" where
  "TYPE_PRECISION (TYPE_NODE code uid sz szu al un pr elt dmn flds mn mx nsub) = pr"
| "TYPE_PRECISION t = 0"

fun TYPE_DOMAIN :: "tree \<Rightarrow> tree" where
  "TYPE_DOMAIN (TYPE_NODE code uid sz szu al un pr elt dmn flds mn mx nsub) = dmn"
| "TYPE_DOMAIN t = NULL_TREE"

fun TYPE_FIELDS :: "tree \<Rightarrow> tree" where
  "TYPE_FIELDS (TYPE_NODE code uid sz szu al un pr elt dmn flds mn mx nsub) = flds"
| "TYPE_FIELDS t = NULL_TREE"

fun TYPE_MIN_VALUE :: "tree \<Rightarrow> tree" where
  "TYPE_MIN_VALUE (TYPE_NODE code uid sz szu al un pr elt dmn flds mn mx nsub) = mn"
| "TYPE_MIN_VALUE t = NULL_TREE"

fun TYPE_MAX_VALUE :: "tree \<Rightarrow> tree" where
  "TYPE_MAX_VALUE (TYPE_NODE code uid sz szu al un pr elt dmn flds mn mx nsub) = mx"
| "TYPE_MAX_VALUE t = NULL_TREE"

fun TYPE_VECTOR_SUBPARTS :: "tree \<Rightarrow> nat" where
  "TYPE_VECTOR_SUBPARTS (TYPE_NODE code uid sz szu al un pr elt dmn flds mn mx nsub) = nsub"
| "TYPE_VECTOR_SUBPARTS t = 0"

definition AGGREGATE_TYPE_P :: "tree \<Rightarrow> bool" where
  "AGGREGATE_TYPE_P t =
     (TREE_CODE t = ARRAY_TYPE \<or> TREE_CODE t = RECORD_TYPE \<or> TREE_CODE t = UNION_TYPE
      \<or> TREE_CODE t = QUAL_UNION_TYPE)"

text \<open>The value of an integer constant node; other nodes have none.\<close>

fun int_cst_value :: "tree \<Rightarrow> int option" where
  "int_cst_value (INTEGER_CST ty v) = Some v"
| "int_cst_value t = None"

definition integer_zerop :: "tree \<Rightarrow> bool" where
  "integer_zerop t = (int_cst_value t = Some 0)"

text \<open>\<^verbatim>\<open>host_integerp(t, 1)\<close>: an integer constant that fits an unsigned 64-bit host integer.\<close>

definition host_integerp_unsigned :: "tree \<Rightarrow> bool" where
  "host_integerp_unsigned t = (case int_cst_value t of None \<Rightarrow> False | Some v \<Rightarrow> 0 \<le> v \<and> v < 2 ^ 64)"

section \<open>The converter's surroundings\<close>

text \<open>
  What the converter takes from GCC, from LLVM and from the rest of the plugin, and what
  depends on the target, is a parameter of the model:
  \<^item> \<open>getTargetData\<close>, \<open>BytesBigEndian\<close> (the macro \<^verbatim>\<open>BYTES_BIG_ENDIAN\<close>), \<open>BigEndianHost\<close>
    (\<^verbatim>\<open>llvm::sys::isBigEndianHost()\<close>), \<open>DefaultInitializeGlobals\<close>
    (\<^verbatim>\<open>flag_default_initialize_globals\<close>), \<open>PointerOverflowUndefined\<close>
    (\<^verbatim>\<open>POINTER_TYPE_OVERFLOW_UNDEFINED\<close>), \<open>NDEBUG\<close> (whether the macro \<^verbatim>\<open>NDEBUG\<close> is defined:
    the build without the checks under \<^verbatim>\<open>#ifndef NDEBUG\<close>);
  \<^item> \<open>ConvertType\<close>, \<open>getDefaultValue\<close>, \<open>isSequentialCompatible\<close>, \<open>ArrayLengthOf\<close> (\<open>None\<close> for
    \<^verbatim>\<open>~0ULL\<close>, no known length), \<open>OffsetIsLLVMCompatible\<close>, \<open>getFieldOffsetInBits\<close>,
    \<open>isInt64\<close>, \<open>getInt64\<close> (its second argument: unsigned or not): functions of the plugin
    that are not among the sources;
  \<^item> \<open>native_encode_expr\<close>: GCC's encoder, returning the bytes it wrote;
  \<^item> \<open>AddressOf\<close>: the address of an lvalue, which depends on the module's globals;
  \<^item> \<open>CreateCast\<close> (\<^verbatim>\<open>CastInst::getCastOpcode\<close> followed by \<^verbatim>\<open>TheFolder->CreateCast\<close>) and
    \<open>CreateGetElementPtr\<close> (its first argument: in bounds or not): LLVM's folder.
\<close>

record Env =
  getTargetData :: TargetData
  BytesBigEndian :: bool
  BigEndianHost :: bool
  DefaultInitializeGlobals :: bool
  PointerOverflowUndefined :: bool
  NDEBUG :: bool
  ConvertType :: "tree \<Rightarrow> Type"
  getDefaultValue :: "Type \<Rightarrow> Constant"
  isSequentialCompatible :: "tree \<Rightarrow> bool"
  ArrayLengthOf :: "tree \<Rightarrow> nat option"
  OffsetIsLLVMCompatible :: "tree \<Rightarrow> bool"
  getFieldOffsetInBits :: "tree \<Rightarrow> nat"
  isInt64 :: "tree \<Rightarrow> bool \<Rightarrow> bool"
  getInt64 :: "tree \<Rightarrow> bool \<Rightarrow> nat"
  native_encode_expr :: "tree \<Rightarrow> nat \<Rightarrow> nat list"
  AddressOf :: "tree \<Rightarrow> error + Constant"
  CreateCast :: "Constant \<Rightarrow> bool \<Rightarrow> Type \<Rightarrow> bool \<Rightarrow> Constant"
  CreateGetElementPtr :: "bool \<Rightarrow> Constant \<Rightarrow> Constant \<Rightarrow> Constant"

text \<open>\<^verbatim>\<open>Type::isSized()\<close>: every type of the model but void, label and metadata has a size.\<close>

primrec isSized :: "Type \<Rightarrow> bool" where
  "isSized VoidTy = False"
| "isSized LabelTy = False"
| "isSized MetadataTy = False"
| "isSized (IntegerTy w) = True"
| "isSized FloatTy = True"
| "isSized DoubleTy = True"
| "isSized X86_FP80Ty = True"
| "isSized FP128Ty = True"
| "isSized PPC_FP128Ty = True"
| "isSized X86_MMXTy = True"
| "isSized (PointerTy t) = True"
| "isSized (ArrayTy t n) = isSized t"
| "isSized (StructTy ts packed) = list_all isSized ts"
| "isSized (VectorTy t n) = True"

text \<open>\<^verbatim>\<open>Constant::getNullValue\<close>: the zero of a type.\<close>

primrec getNullValue :: "Type \<Rightarrow> Constant" where
  "getNullValue VoidTy = UndefValue VoidTy"
| "getNullValue LabelTy = UndefValue LabelTy"
| "getNullValue MetadataTy = UndefValue MetadataTy"
| "getNullValue (IntegerTy w) = ConstantInt w 0"
| "getNullValue FloatTy = ConstantFP FloatK 0"
| "getNullValue DoubleTy = ConstantFP DoubleK 0"
| "getNullValue X86_FP80Ty = ConstantFP X86_FP80K 0"
| "getNullValue FP128Ty = ConstantFP FP128K 0"
| "getNullValue PPC_FP128Ty = ConstantFP PPC_FP128K 0"
| "getNullValue X86_MMXTy = ConstantFP X86_MMXK 0"
| "getNullValue (PointerTy t) = ConstantPointer t 0"
| "getNullValue (ArrayTy t n) = ConstantArray t (replicate n (getNullValue t))"
| "getNullValue (StructTy ts packed) = ConstantStruct packed (map getNullValue ts)"
| "getNullValue (VectorTy t n) = ConstantVector t (replicate n (getNullValue t))"

definition CreateAdd :: "Constant \<Rightarrow> Constant \<Rightarrow> Constant" where
  "CreateAdd a b =
     (case (a, b) of
        (ConstantInt w x, ConstantInt w' y) \<Rightarrow> ConstantInt w (take_bit w (x + y))
      | _ \<Rightarrow> UndefValue (getType a))"

definition CreateSub :: "Constant \<Rightarrow> Constant \<Rightarrow> Constant" where
  "CreateSub a b =
     (case (a, b) of
        (ConstantInt w x, ConstantInt w' y) \<Rightarrow> ConstantInt w (take_bit w (x - y))
      | _ \<Rightarrow> UndefValue (getType a))"

fun isPointerTy :: "Type \<Rightarrow> bool" where
  "isPointerTy (PointerTy t) = True"
| "isPointerTy t = False"

definition GetUnitPointerType :: Type where
  "GetUnitPointerType = PointerTy (IntegerTy BITS_PER_UNIT)"

section \<open>Scalar initializers\<close>

text \<open>
  \<open>ConvertInitializerWithCast\<close> converts its operand with \<open>ConvertInitializer\<close> first. The
  converter is one recursive function (below); its helpers take the result of that
  recursive call as the argument \<open>Converted\<close> and do the rest of the source function.
\<close>

definition CastInitializer :: "Env \<Rightarrow> error + Constant \<Rightarrow> tree \<Rightarrow> tree \<Rightarrow> error + Constant" where
  "CastInitializer env Converted exp type =
     (case Converted of
        Inl e \<Rightarrow> Inl e
      | Inr C \<Rightarrow>
          if type = TREE_TYPE exp \<or> AGGREGATE_TYPE_P (TREE_TYPE exp) \<or> AGGREGATE_TYPE_P type
          then Inr C
          else
            let SrcTy = ConvertType env (TREE_TYPE exp);
                DestTy = ConvertType env type
            in if SrcTy = DestTy then Inr C
               else case InterpretAsType (getTargetData env) (BytesBigEndian env) C SrcTy 0 of
                 Inl e \<Rightarrow> Inl e
               | Inr C' \<Rightarrow>
                   (let SrcIsSigned = \<not> TYPE_UNSIGNED (TREE_TYPE exp);
                        DestIsSigned = \<not> TYPE_UNSIGNED type
                    in Inr (CreateCast env C' SrcIsSigned DestTy DestIsSigned)))"

definition CHAR_BIT :: nat where
  "CHAR_BIT = 8"

definition ConvertCST :: "Env \<Rightarrow> tree \<Rightarrow> error + Constant" where
  "ConvertCST env exp =
     (let type = TREE_TYPE exp in
      case int_cst_value (TYPE_SIZE type) of
        None \<Rightarrow> Inl NullContents
      | Some sz \<Rightarrow>
          let SizeInChars = (nat (take_bit 64 sz) + CHAR_BIT - 1) div CHAR_BIT;
              Buffer = native_encode_expr env exp SizeInChars;
              CharsWritten = length Buffer
          in if CharsWritten \<noteq> SizeInChars
             then Inl (AssertionFailed ''Failed to fully encode expression!'')
             else Inr (ConstantArray (IntegerTy 8) (map (\<lambda>b. ConstantInt 8 (take_bit 8 (int b))) Buffer)))"

text \<open>
  The string's bytes read as 16-bit and 32-bit host integers, and the byte swaps
  \<^verbatim>\<open>ByteSwap_16\<close> and \<^verbatim>\<open>ByteSwap_32\<close>.
\<close>

definition host_load :: "bool \<Rightarrow> nat list \<Rightarrow> int" where
  "host_load hostBigEndian bs =
     int (foldl (\<lambda>acc b. acc * 256 + b mod 256) 0 (if hostBigEndian then bs else rev bs))"

definition ByteSwap_16 :: "int \<Rightarrow> int" where
  "ByteSwap_16 v = (v mod 256) * 256 + (v div 256) mod 256"

definition ByteSwap_32 :: "int \<Rightarrow> int" where
  "ByteSwap_32 v =
     (v mod 256) * 16777216 + ((v div 256) mod 256) * 65536
       + ((v div 65536) mod 256) * 256 + (v div 16777216) mod 256"

definition string_elts :: "Env \<Rightarrow> nat \<Rightarrow> nat list \<Rightarrow> Constant list" where
  "string_elts env bytesPerElt InStr =
     map (\<lambda>i. let v = host_load (BigEndianHost env) (take bytesPerElt (drop (i * bytesPerElt) InStr))
               in ConstantInt (8 * bytesPerElt)
                    (if BigEndianHost env = BytesBigEndian env then v
                     else if bytesPerElt = 2 then ByteSwap_16 v else ByteSwap_32 v))
         [0 ..< length InStr div bytesPerElt]"

definition ConvertSTRING_CST :: "Env \<Rightarrow> tree \<Rightarrow> nat list \<Rightarrow> error + Constant" where
  "ConvertSTRING_CST env exp InStr =
     (case ConvertType env (TREE_TYPE exp) of
        ArrayTy ElTy NumElements \<Rightarrow>
          (let Len = length InStr in
           case (if ElTy = IntegerTy 8 then Inr (map (\<lambda>b. ConstantInt 8 (take_bit 8 (int b))) InStr)
                 else if ElTy = IntegerTy 16 then
                   (if Len mod 2 \<noteq> 0
                    then Inl (AssertionFailed ''Length in bytes should be a multiple of element size'')
                    else Inr (string_elts env 2 InStr))
                 else if ElTy = IntegerTy 32 then
                   (if Len mod 4 \<noteq> 0
                    then Inl (AssertionFailed ''Length in bytes should be a multiple of element size'')
                    else Inr (string_elts env 4 InStr))
                 else Inl (AssertionFailed ''Unknown character type!'')) of
             Inl e \<Rightarrow> Inl e
           | Inr Elts \<Rightarrow>
               (case int_cst_value (TYPE_SIZE_UNIT (TREE_TYPE (TREE_TYPE exp))) of
                  None \<Rightarrow> Inl NullContents
                | Some unit_size \<Rightarrow>
                    if unit_size \<le> 0 then Inl NullContents
                    else
                      let LenInElts = Len div nat unit_size;
                          Domain = TYPE_DOMAIN (TREE_TYPE exp);
                          ConstantSize =
                            (if LenInElts \<noteq> NumElements \<and> NumElements = 0
                                \<and> (Domain = NULL_TREE \<or> TYPE_MAX_VALUE Domain = NULL_TREE)
                             then LenInElts else NumElements);
                          Elts' =
                            (if LenInElts = NumElements then Elts
                             else if ConstantSize < LenInElts then take ConstantSize Elts
                             else Elts @ replicate (ConstantSize - LenInElts) (getNullValue ElTy))
                      in if length Elts' \<noteq> ConstantSize
                         then Inl (AssertionFailed ''Invalid initializer vector for constant array'')
                         else Inr (ConstantArray ElTy Elts')))
      | _ \<Rightarrow> Inl (AssertionFailed ''cast<ArrayType>() argument of incompatible type!''))"

section \<open>Array and vector constructors\<close>

text \<open>
  \<^verbatim>\<open>fold_build2(MINUS_EXPR, type, index, lower_bnd)\<close> on integer constants; anything else
  stays an unfolded expression, which \<^verbatim>\<open>host_integerp\<close> then rejects.
\<close>

definition fold_build2_MINUS :: "tree \<Rightarrow> tree \<Rightarrow> tree" where
  "fold_build2_MINUS a b =
     (case (int_cst_value a, int_cst_value b) of
        (Some x, Some y) \<Rightarrow> INTEGER_CST (TREE_TYPE a) (x - y)
      | _ \<Rightarrow> EXPR MINUS_EXPR (TREE_TYPE a) [a, b])"

definition tree_low_cst :: "tree \<Rightarrow> nat" where
  "tree_low_cst t = (case int_cst_value t of None \<Rightarrow> 0 | Some v \<Rightarrow> nat v)"

text \<open>The padding of an initial value that is smaller than the element.\<close>

definition pad_element :: "TargetData \<Rightarrow> nat \<Rightarrow> Constant \<Rightarrow> error + Constant" where
  "pad_element TD EltSize Val =
     (let ValSize = getTypeAllocSizeInBits TD (getType Val) in
      if \<not> ValSize \<le> EltSize then Inl (AssertionFailed ''Element initial value too big!'')
      else if ValSize < EltSize then
        (let PadBits = EltSize - ValSize in
         if PadBits mod BITS_PER_UNIT \<noteq> 0 then Inl (AssertionFailed ''Non-unit type size?'')
         else let Units = PadBits div BITS_PER_UNIT;
                  Padding = UndefValue (GetUnitType Units)
              in Inr (ConstantStruct False [Val, Padding]))
      else Inr Val)"

text \<open>The first and last position an element entry fills, inclusive.\<close>

definition element_positions :: "tree \<Rightarrow> tree \<Rightarrow> nat \<Rightarrow> error + nat \<times> nat" where
  "element_positions lower_bnd elt_index NextIndex =
     (if elt_index = NULL_TREE then Inr (NextIndex, NextIndex)
      else if TREE_CODE elt_index = RANGE_EXPR then
        (let first0 = TREE_OPERAND elt_index 0;
             last0 = TREE_OPERAND elt_index 1;
             first1 = (if lower_bnd \<noteq> NULL_TREE then fold_build2_MINUS first0 lower_bnd else first0);
             last1 = (if lower_bnd \<noteq> NULL_TREE then fold_build2_MINUS last0 lower_bnd else last0)
         in if \<not> (host_integerp_unsigned first1 \<and> host_integerp_unsigned last1)
            then Inl (AssertionFailed ''Unknown range_expr!'')
            else Inr (tree_low_cst first1, tree_low_cst last1))
      else
        (let index1 = (if lower_bnd \<noteq> NULL_TREE then fold_build2_MINUS elt_index lower_bnd else elt_index)
         in if \<not> host_integerp_unsigned index1 then Inl (AssertionFailed ''host_integerp(index, 1)'')
            else Inr (tree_low_cst index1, tree_low_cst index1)))"

text \<open>
  One round of \<^verbatim>\<open>FOR_EACH_CONSTRUCTOR_ELT\<close>: the state is the vector \<open>Elts\<close> (an entry
  \<open>None\<close> is a null pointer, an element to default initialize) and \<open>NextIndex\<close>.
\<close>

definition array_elt_step ::
  "Env \<Rightarrow> tree \<Rightarrow> nat \<Rightarrow> tree \<Rightarrow> (tree \<times> tree) \<times> (error + Constant)
     \<Rightarrow> error + Constant option list \<times> nat \<Rightarrow> error + Constant option list \<times> nat" where
  "array_elt_step env elt_type EltSize lower_bnd entry state =
     (case state of
        Inl e \<Rightarrow> Inl e
      | Inr (Elts, NextIndex) \<Rightarrow>
          (case CastInitializer env (snd entry) (snd (fst entry)) elt_type of
             Inl e \<Rightarrow> Inl e
           | Inr Val0 \<Rightarrow>
          (case pad_element (getTargetData env) EltSize Val0 of
             Inl e \<Rightarrow> Inl e
           | Inr Val \<Rightarrow>
          (case element_positions lower_bnd (fst (fst entry)) NextIndex of
             Inl e \<Rightarrow> Inl e
           | Inr (FirstIndex, LastIndex) \<Rightarrow>
               (let Elts1 = (if LastIndex \<ge> length Elts
                             then Elts @ replicate (LastIndex + 1 - length Elts) None else Elts);
                    Elts2 = fold (\<lambda>i es. es[i := Some Val]) [FirstIndex ..< LastIndex + 1] Elts1
                in Inr (Elts2, if FirstIndex \<le> LastIndex then LastIndex + 1 else FirstIndex))))))"

definition ConvertArrayCONSTRUCTOR :: "Env \<Rightarrow> tree \<Rightarrow> (error + Constant) list \<Rightarrow> error + Constant" where
  "ConvertArrayCONSTRUCTOR env exp Converted =
     (let TD = getTargetData env;
          init_type = TREE_TYPE exp;
          InitTy = ConvertType env init_type;
          elt_type = TREE_TYPE init_type;
          EltTy = ConvertType env elt_type
      in
      if \<not> isSequentialCompatible env init_type then Inl (AssertionFailed ''Variable sized array element!'')
      else
        let EltSize = getTypeAllocSizeInBits TD EltTy;
            TypeElts = (if TREE_CODE init_type = ARRAY_TYPE then ArrayLengthOf env init_type
                        else Some (TYPE_VECTOR_SUBPARTS init_type));
            Elts0 = (case TypeElts of None \<Rightarrow> [] | Some n \<Rightarrow> replicate n None);
            lower_bnd =
              (if TREE_CODE init_type = ARRAY_TYPE \<and> TYPE_DOMAIN init_type \<noteq> NULL_TREE
                  \<and> \<not> integer_zerop (TYPE_MIN_VALUE (TYPE_DOMAIN init_type))
               then TYPE_MIN_VALUE (TYPE_DOMAIN init_type) else NULL_TREE)
        in
        case fold (array_elt_step env elt_type EltSize lower_bnd)
                  (zip (CONSTRUCTOR_ELTS exp) Converted) (Inr (Elts0, 0)) of
          Inl e \<Rightarrow> Inl e
        | Inr (EltsOpt, NextIndex) \<Rightarrow>
            let NumElts = length EltsOpt in
            if NumElts = 0 then Inr (getDefaultValue env InitTy)
            else
              let DefaultElt = getDefaultValue env EltTy;
                  Elts = map (\<lambda>e. case e of None \<Rightarrow> DefaultElt | Some v \<Rightarrow> v) EltsOpt;
                  ActualEltTy = getType (Elts ! 0);
                  others = filter (\<lambda>e. getType e \<noteq> ActualEltTy) (tl Elts);
                  MaxAlign = fold (\<lambda>e m. max (getABITypeAlignment TD (getType e)) m) others
                                  (getABITypeAlignment TD ActualEltTy);
                  UseStruct0 = (others \<noteq> []);
                  Pack = (MaxAlign * 8 > TYPE_ALIGN (TREE_TYPE exp));
                  TypeSize = getTypeAllocSizeInBits TD InitTy
              in
              if NumElts * EltSize < TypeSize then
                (let PadBits = TypeSize - NumElts * EltSize in
                 if PadBits mod BITS_PER_UNIT \<noteq> 0 then Inl (AssertionFailed ''Non-unit type size?'')
                 else Inr (ConstantStruct Pack
                             (Elts @ [UndefValue (GetUnitType (PadBits div BITS_PER_UNIT))])))
              else if UseStruct0 \<or> Pack then Inr (ConstantStruct Pack Elts)
              else if ActualEltTy = EltTy \<and> TREE_CODE init_type = VECTOR_TYPE
                then Inr (ConstantVector ActualEltTy Elts)
                else Inr (ConstantArray ActualEltTy Elts))"

section \<open>Interval lists\<close>

text \<open>
  Modelled from the spec: \<^verbatim>\<open>IntervalList\<close> lives in \<^verbatim>\<open>dragonegg/ADT/IntervalList.h\<close>, which is
  not among the sources. The spec describes a collection of intervals ordered by their
  first bit and pairwise disjoint after every insertion, where "an inserted interval
  overlapping existing ones triggers a caller-defined merge that folds the overlap into one
  new interval spanning the union", the inserted value overwriting what it overlaps ("this
  is how an explicit field value overwrites the default zero"), and a pass that "snaps
  every interval boundary to a byte boundary", coalescing adjacent sub-byte pieces. The
  merge is \<open>JoinWith\<close>, which the source restricts to disjoint fields; so an overlapped
  interval is first cut back with \<open>ChangeRangeTo\<close> to what lies before and after the
  inserted one, and what remains is joined to it. An empty interval is not stored.
\<close>

type_synonym IntervalList = "FieldContents list"

definition join_piece ::
  "TargetData \<Rightarrow> bool \<Rightarrow> error + FieldContents \<Rightarrow> FieldContents \<Rightarrow> error + FieldContents" where
  "join_piece TD be acc piece =
     (case acc of
        Inl e \<Rightarrow> Inl e
      | Inr F \<Rightarrow> if empty_range (fieldRange piece) then Inr F else JoinWith TD be F piece)"

definition fold_overlap ::
  "TargetData \<Rightarrow> bool \<Rightarrow> FieldContents \<Rightarrow> FieldContents \<Rightarrow> error + FieldContents \<Rightarrow> error + FieldContents" where
  "fold_overlap TD be S E acc =
     (let left_part = ChangeRangeTo E (SignedRange (First (fieldRange E)) (First (fieldRange S)));
          right_part = ChangeRangeTo E (SignedRange (Last (fieldRange S)) (Last (fieldRange E)))
      in join_piece TD be (join_piece TD be acc left_part) right_part)"

definition AddInterval :: "TargetData \<Rightarrow> bool \<Rightarrow> IntervalList \<Rightarrow> FieldContents \<Rightarrow> error + IntervalList" where
  "AddInterval TD be Intervals S =
     (if empty_range (fieldRange S) then Inr Intervals
      else
        let lo = filter (\<lambda>E. Last (fieldRange E) \<le> First (fieldRange S)) Intervals;
            ov = filter (\<lambda>E. intersects (fieldRange E) (fieldRange S)) Intervals;
            hi = filter (\<lambda>E. Last (fieldRange S) \<le> First (fieldRange E)) Intervals
        in case fold (fold_overlap TD be S) ov (Inr S) of
             Inl e \<Rightarrow> Inl e
           | Inr New \<Rightarrow> Inr (lo @ [New] @ hi))"

definition round_down :: "int \<Rightarrow> nat \<Rightarrow> int" where
  "round_down x Alignment = x - x mod int Alignment"

definition round_up :: "int \<Rightarrow> nat \<Rightarrow> int" where
  "round_up x Alignment = round_down (x + int Alignment - 1) Alignment"

fun align_from ::
  "TargetData \<Rightarrow> bool \<Rightarrow> nat \<Rightarrow> FieldContents \<Rightarrow> IntervalList \<Rightarrow> error + IntervalList" where
  "align_from TD be Alignment S [] =
     Inr [ChangeRangeTo S (SignedRange (round_down (First (fieldRange S)) Alignment)
                                       (round_up (Last (fieldRange S)) Alignment))]"
| "align_from TD be Alignment S (E # es) =
     (if First (fieldRange E) < round_up (Last (fieldRange S)) Alignment then
        (case JoinWith TD be S E of
           Inl e \<Rightarrow> Inl e
         | Inr S' \<Rightarrow> align_from TD be Alignment S' es)
      else
        (case align_from TD be Alignment E es of
           Inl e \<Rightarrow> Inl e
         | Inr tail \<Rightarrow>
             Inr (ChangeRangeTo S (SignedRange (round_down (First (fieldRange S)) Alignment)
                                               (round_up (Last (fieldRange S)) Alignment)) # tail)))"

definition AlignBoundaries :: "TargetData \<Rightarrow> bool \<Rightarrow> IntervalList \<Rightarrow> nat \<Rightarrow> error + IntervalList" where
  "AlignBoundaries TD be Intervals Alignment =
     (if \<not> 0 < Alignment then Inl (AssertionFailed ''Alignment should be positive!'')
      else case Intervals of
        [] \<Rightarrow> Inr []
      | S # rest \<Rightarrow> align_from TD be Alignment S rest)"

section \<open>Record constructors\<close>

text \<open>The seeding loop over \<^verbatim>\<open>TYPE_FIELDS\<close>: every field that can be is set to zero.\<close>

fun default_initialize :: "Env \<Rightarrow> nat \<Rightarrow> tree \<Rightarrow> IntervalList \<Rightarrow> error + IntervalList" where
  "default_initialize env TypeSize (DECL code uid ty sz nxt) Layout =
     (let field = DECL code uid ty sz nxt in
      if code \<noteq> FIELD_DECL then default_initialize env TypeSize nxt Layout
      else if \<not> OffsetIsLLVMCompatible env field then default_initialize env TypeSize nxt Layout
      else
        let FirstBit = getFieldOffsetInBits env field in
        if \<not> FirstBit \<le> TypeSize then Inl (AssertionFailed ''Field off end of type!'')
        else
          let FieldTy = ConvertType env (TREE_TYPE field) in
          if \<not> isInt64 env (DECL_SIZE field) True \<and> \<not> isSized FieldTy
          then default_initialize env TypeSize nxt Layout
          else
            let BitWidth =
                  (if isInt64 env (DECL_SIZE field) True then getInt64 env (DECL_SIZE field) True
                   else let w = getTypeAllocSizeInBits (getTargetData env) FieldTy
                        in if FirstBit + w > TypeSize then TypeSize - FirstBit else w);
                LastBit = FirstBit + BitWidth;
                Zero = getNullValue FieldTy
            in case FieldContents_get (int FirstBit) (int LastBit) Zero of
                 Inl e \<Rightarrow> Inl e
               | Inr F \<Rightarrow>
                   (case AddInterval (getTargetData env) (BytesBigEndian env) Layout F of
                      Inl e \<Rightarrow> Inl e
                    | Inr Layout' \<Rightarrow> default_initialize env TypeSize nxt Layout'))"
| "default_initialize env TypeSize t Layout = Inr Layout"

text \<open>"Move on to the next \<^verbatim>\<open>FIELD_DECL\<close>, skipping contained methods, types etc."\<close>

fun next_FIELD_DECL :: "tree \<Rightarrow> error + tree" where
  "next_FIELD_DECL (DECL code uid ty sz nxt) =
     (if code = FIELD_DECL then Inr (DECL code uid ty sz nxt) else next_FIELD_DECL nxt)"
| "next_FIELD_DECL NULL_TREE = Inl (AssertionFailed ''Fell off end of record!'')"
| "next_FIELD_DECL t = next_FIELD_DECL (TREE_CHAIN t)"

text \<open>
  One round of \<^verbatim>\<open>FOR_EACH_CONSTRUCTOR_ELT\<close> of the record constructor: the state is the
  layout and \<open>next_field\<close>.
\<close>

definition record_elt_step ::
  "Env \<Rightarrow> nat \<Rightarrow> (tree \<times> tree) \<times> (error + Constant)
     \<Rightarrow> error + IntervalList \<times> tree \<Rightarrow> error + IntervalList \<times> tree" where
  "record_elt_step env TypeSize entry state =
     (case state of
        Inl e \<Rightarrow> Inl e
      | Inr (Layout, next_field) \<Rightarrow>
          (case (if fst (fst entry) = NULL_TREE then next_FIELD_DECL next_field
                 else Inr (fst (fst entry))) of
             Inl e \<Rightarrow> Inl e
           | Inr field \<Rightarrow>
               if TREE_CODE field \<noteq> FIELD_DECL then Inl (AssertionFailed ''Initial value not for a field!'')
               else if \<not> OffsetIsLLVMCompatible env field then Inl (AssertionFailed ''Field position not known!'')
               else
                 (case CastInitializer env (snd entry) (snd (fst entry)) (TREE_TYPE field) of
                    Inl e \<Rightarrow> Inl e
                  | Inr Init \<Rightarrow>
                      let FirstBit = getFieldOffsetInBits env field in
                      if \<not> FirstBit \<le> TypeSize then Inl (AssertionFailed ''Field off end of type!'')
                      else
                        let BitWidth =
                              (if isInt64 env (DECL_SIZE field) True then getInt64 env (DECL_SIZE field) True
                               else getTypeAllocSizeInBits (getTargetData env) (getType Init));
                            LastBit = FirstBit + BitWidth
                        in case FieldContents_get (int FirstBit) (int LastBit) Init of
                             Inl e \<Rightarrow> Inl e
                           | Inr F \<Rightarrow>
                               (case AddInterval (getTargetData env) (BytesBigEndian env) Layout F of
                                  Inl e \<Rightarrow> Inl e
                                | Inr Layout' \<Rightarrow> Inr (Layout', TREE_CHAIN field)))))"

text \<open>The loop that decides whether the struct is packed; it stops at the first reason.\<close>

fun needs_packing :: "TargetData \<Rightarrow> bool \<Rightarrow> nat \<Rightarrow> IntervalList \<Rightarrow> error + bool" where
  "needs_packing TD be MaxAlign [] = Inr False"
| "needs_packing TD be MaxAlign (F # Fs) =
     (let First' = nat (First (fieldRange F)) in
      case extractContents TD be F of
        Inl e \<Rightarrow> Inl e
      | Inr (Val, F') \<Rightarrow>
          let Alignment = getABITypeAlignment TD (getType Val) * 8 in
          if Alignment > MaxAlign \<or> First' mod Alignment \<noteq> 0 then Inr True
          else needs_packing TD be MaxAlign Fs)"

text \<open>One round of the loop that creates the elements: the state is \<open>Elts\<close> and \<open>EndOfPrevious\<close>.\<close>

definition struct_elt_step ::
  "TargetData \<Rightarrow> bool \<Rightarrow> bool \<Rightarrow> FieldContents
     \<Rightarrow> error + Constant list \<times> nat \<Rightarrow> error + Constant list \<times> nat" where
  "struct_elt_step TD be Pack F state =
     (case state of
        Inl e \<Rightarrow> Inl e
      | Inr (Elts, EndOfPrevious) \<Rightarrow>
          let First' = nat (First (fieldRange F)) in
          case extractContents TD be F of
            Inl e \<Rightarrow> Inl e
          | Inr (Val, F') \<Rightarrow>
              if \<not> EndOfPrevious \<le> First' then Inl (AssertionFailed ''Previous field too big!'')
              else
                let Alignment = getABITypeAlignment TD (getType Val) * 8;
                    NeedPadding =
                      (First' > EndOfPrevious \<and>
                       \<not> (\<not> Pack \<and> First' = (EndOfPrevious + Alignment - 1) div Alignment * Alignment))
                in if NeedPadding \<and> (First' - EndOfPrevious) mod BITS_PER_UNIT \<noteq> 0
                   then Inl (AssertionFailed ''Non-unit field boundaries!'')
                   else
                     let Padding = (if NeedPadding
                                    then [UndefValue (GetUnitType ((First' - EndOfPrevious) div BITS_PER_UNIT))]
                                    else [])
                     in Inr (Elts @ Padding @ [Val],
                             First' + getTypeAllocSizeInBits TD (getType Val)))"

definition ConvertRecordCONSTRUCTOR :: "Env \<Rightarrow> tree \<Rightarrow> (error + Constant) list \<Rightarrow> error + Constant" where
  "ConvertRecordCONSTRUCTOR env exp Converted =
     (let TD = getTargetData env;
          be = BytesBigEndian env;
          TypeSize = getTypeAllocSizeInBits TD (ConvertType env (TREE_TYPE exp))
      in
      case (if DefaultInitializeGlobals env
            then default_initialize env TypeSize (TYPE_FIELDS (TREE_TYPE exp)) []
            else Inr []) of
        Inl e \<Rightarrow> Inl e
      | Inr Layout0 \<Rightarrow>
      (case fold (record_elt_step env TypeSize) (zip (CONSTRUCTOR_ELTS exp) Converted)
                 (Inr (Layout0, TYPE_FIELDS (TREE_TYPE exp))) of
        Inl e \<Rightarrow> Inl e
      | Inr (Layout1, next_field) \<Rightarrow>
      (case AlignBoundaries TD be Layout1 BITS_PER_UNIT of
        Inl e \<Rightarrow> Inl e
      | Inr Layout \<Rightarrow>
      (case needs_packing TD be (TYPE_ALIGN (TREE_TYPE exp)) Layout of
        Inl e \<Rightarrow> Inl e
      | Inr Pack \<Rightarrow>
      (case fold (struct_elt_step TD be Pack) Layout (Inr ([], 0)) of
        Inl e \<Rightarrow> Inl e
      | Inr (Elts, EndOfPrevious) \<Rightarrow>
          if EndOfPrevious < TypeSize then
            (if (TypeSize - EndOfPrevious) mod BITS_PER_UNIT \<noteq> 0
             then Inl (AssertionFailed ''Non-unit type size?'')
             else Inr (ConstantStruct Pack
                    (Elts @ [UndefValue (GetUnitType ((TypeSize - EndOfPrevious) div BITS_PER_UNIT))])))
          else Inr (ConstantStruct Pack Elts))))))"

definition ConvertCONSTRUCTOR :: "Env \<Rightarrow> tree \<Rightarrow> (error + Constant) list \<Rightarrow> error + Constant" where
  "ConvertCONSTRUCTOR env exp Converted =
     (if CONSTRUCTOR_NELTS exp = 0 then Inr (getDefaultValue env (ConvertType env (TREE_TYPE exp)))
      else
        let code = TREE_CODE (TREE_TYPE exp) in
        if code = VECTOR_TYPE \<or> code = ARRAY_TYPE then ConvertArrayCONSTRUCTOR env exp Converted
        else if code = QUAL_UNION_TYPE \<or> code = RECORD_TYPE \<or> code = UNION_TYPE
          then ConvertRecordCONSTRUCTOR env exp Converted
        else Inl (DieAbjectly ''Unknown constructor!''))"

section \<open>Operators\<close>

definition ConvertBinOp_CST :: "Env \<Rightarrow> tree \<Rightarrow> error + Constant \<Rightarrow> error + Constant \<Rightarrow> error + Constant" where
  "ConvertBinOp_CST env exp ConvertedLHS ConvertedRHS =
     (case ConvertedLHS of
        Inl e \<Rightarrow> Inl e
      | Inr LHS0 \<Rightarrow>
      (case ConvertedRHS of
        Inl e \<Rightarrow> Inl e
      | Inr RHS0 \<Rightarrow>
          let LHSIsSigned = \<not> TYPE_UNSIGNED (TREE_TYPE (TREE_OPERAND exp 0));
              RHSIsSigned = \<not> TYPE_UNSIGNED (TREE_TYPE (TREE_OPERAND exp 1));
              IntPtrTy = getIntPtrType (getTargetData env);
              LHS = (if isPointerTy (getType LHS0) then CreateCast env LHS0 LHSIsSigned IntPtrTy False else LHS0);
              RHS = (if isPointerTy (getType LHS0) then CreateCast env RHS0 RHSIsSigned IntPtrTy False else RHS0)
          in case (if TREE_CODE exp = PLUS_EXPR then Inr (CreateAdd LHS RHS)
                   else if TREE_CODE exp = MINUS_EXPR then Inr (CreateSub LHS RHS)
                   else Inl (AssertionFailed ''Unexpected case!'')) of
               Inl e \<Rightarrow> Inl e
             | Inr Result \<Rightarrow>
                 let Ty = ConvertType env (TREE_TYPE exp);
                     TyIsSigned = \<not> TYPE_UNSIGNED (TREE_TYPE exp)
                 in Inr (CreateCast env Result LHSIsSigned Ty TyIsSigned)))"

definition ConvertPOINTER_PLUS_EXPR :: "Env \<Rightarrow> tree \<Rightarrow> error + Constant \<Rightarrow> error + Constant \<Rightarrow> error + Constant" where
  "ConvertPOINTER_PLUS_EXPR env exp ConvertedPtr ConvertedIdx =
     (case ConvertedPtr of
        Inl e \<Rightarrow> Inl e
      | Inr Ptr0 \<Rightarrow>
      (case ConvertedIdx of
        Inl e \<Rightarrow> Inl e
      | Inr Idx \<Rightarrow>
          let Ptr = CreateBitCast Ptr0 GetUnitPointerType;
              GEP = CreateGetElementPtr env (PointerOverflowUndefined env) Ptr Idx
          in Inr (CreateBitCast GEP (ConvertType env (TREE_TYPE exp)))))"

section \<open>ConvertInitializer\<close>

text \<open>
  The checks at the end of \<open>ConvertInitializer\<close>, under \<^verbatim>\<open>#ifndef NDEBUG\<close>: when \<^verbatim>\<open>NDEBUG\<close>
  is defined they are compiled out and the converted value is returned as it is.
\<close>

definition check_initializer :: "Env \<Rightarrow> tree \<Rightarrow> error + Constant \<Rightarrow> error + Constant" where
  "check_initializer env exp Converted =
     (case Converted of
        Inl e \<Rightarrow> Inl e
      | Inr Init \<Rightarrow>
          if NDEBUG env then Inr Init else
          let TD = getTargetData env;
              Ty = ConvertType env (TREE_TYPE exp);
              InitSize = getTypeAllocSizeInBits TD (getType Init);
              TypeSize = getTypeAllocSizeInBits TD Ty
          in if isSized Ty \<and> InitSize < TypeSize then Inl (DieAbjectly ''Constant too small for type!'')
             else if isSized Ty \<and> isInt64 env (TREE_TYPE exp) True \<and> InitSize \<noteq> TypeSize
               then Inl (DieAbjectly ''Constant too big for type!'')
             else if getABITypeAlignment TD (getType Init) * 8 > TYPE_ALIGN (TREE_TYPE exp)
               then Inl (DieAbjectly ''Constant over aligned!'')
             else Inr Init)"

lemma size_elt_value:
  "p \<in> set elts \<Longrightarrow> size (snd p) < Suc (size_list (size_prod size size) elts + n)"
  by (induction elts) auto

lemma size_nth_le: "i < length ops \<Longrightarrow> size (ops ! i) \<le> size_list size (ops :: tree list)"
proof (induction ops arbitrary: i)
  case Nil
  then show ?case by simp
next
  case (Cons a ops)
  then show ?case by (cases i) (auto simp: le_SucI trans_le_add2)
qed

lemma size_operand:
  "i < length ops \<Longrightarrow> size (ops ! i) < Suc (size_list size (ops :: tree list) + n)"
  using size_nth_le[of i ops] by simp

lemma size_operand0:
  "0 < length ops \<Longrightarrow> size (ops ! 0) < Suc (size_list size (ops :: tree list) + n)"
  "Suc 0 < length ops \<Longrightarrow> size (ops ! 0) < Suc (size_list size (ops :: tree list) + n)"
  "Suc 0 < length ops \<Longrightarrow> size (ops ! Suc 0) < Suc (size_list size (ops :: tree list) + n)"
  using size_nth_le[of 0 ops] size_nth_le[of "Suc 0" ops] by (cases ops; force)+

function ConvertInitializer :: "Env \<Rightarrow> tree \<Rightarrow> error + Constant" where
  "ConvertInitializer env exp =
     check_initializer env exp
       (case exp of
          INTEGER_CST ty v \<Rightarrow>
            (case ConvertCST env exp of
               Inl e \<Rightarrow> Inl e
             | Inr C \<Rightarrow> InterpretAsType (getTargetData env) (BytesBigEndian env) C
                          (ConvertType env (TREE_TYPE exp)) 0)
        | CST code ty n \<Rightarrow>
            (if code = COMPLEX_CST \<or> code = REAL_CST \<or> code = VECTOR_CST then
               (case ConvertCST env exp of
                  Inl e \<Rightarrow> Inl e
                | Inr C \<Rightarrow> InterpretAsType (getTargetData env) (BytesBigEndian env) C
                             (ConvertType env (TREE_TYPE exp)) 0)
             else Inl (DieAbjectly ''Unknown constant to convert!''))
        | STRING_CST ty bs \<Rightarrow> ConvertSTRING_CST env exp bs
        | CONSTRUCTOR ty elts \<Rightarrow>
            ConvertCONSTRUCTOR env exp (map (\<lambda>p. ConvertInitializer env (snd p)) elts)
        | EXPR code ty ops \<Rightarrow>
            (if code = ADDR_EXPR then AddressOf env (TREE_OPERAND exp 0)
             else if code = CONVERT_EXPR \<or> code = NOP_EXPR then
               (if 0 < length ops
                then CastInitializer env (ConvertInitializer env (ops ! 0)) (ops ! 0) (TREE_TYPE exp)
                else Inl NullContents)
             else if code = MINUS_EXPR \<or> code = PLUS_EXPR then
               (if 1 < length ops
                then ConvertBinOp_CST env exp (ConvertInitializer env (ops ! 0))
                                              (ConvertInitializer env (ops ! 1))
                else Inl NullContents)
             else if code = POINTER_PLUS_EXPR then
               (if 1 < length ops
                then ConvertPOINTER_PLUS_EXPR env exp (ConvertInitializer env (ops ! 0))
                                                      (ConvertInitializer env (ops ! 1))
                else Inl NullContents)
             else if code = VIEW_CONVERT_EXPR then
               (if 0 < length ops then ConvertInitializer env (ops ! 0) else Inl NullContents)
             else Inl (DieAbjectly ''Unknown constant to convert!''))
        | _ \<Rightarrow> Inl (DieAbjectly ''Unknown constant to convert!''))"
  by pat_completeness auto
termination
  by (relation "measure (\<lambda>(env, exp). size exp)") (auto simp: size_elt_value size_operand size_operand0)

section \<open>Reading a slice bit by bit\<close>

text \<open>
  The bit of a slice at an absolute position, as the comment on the \<open>BitSlice\<close>
  constructor fixes it: on a little-endian target the least significant bit of the contents
  is the first bit of the range, on a big-endian target it is the last one. A position
  outside the range, and every position of a slice with undefined contents, has no
  defined bit.
\<close>

definition sliceBit :: "bool \<Rightarrow> BitSlice \<Rightarrow> int \<Rightarrow> bool option" where
  "sliceBit BYTES_BIG_ENDIAN s p =
     (if First (getRange s) \<le> p \<and> p < Last (getRange s) then
        (case Contents s of
           Some (ConstantInt w v) \<Rightarrow>
             Some (bit v (nat (if BYTES_BIG_ENDIAN then Last (getRange s) - 1 - p else p - First (getRange s))))
         | _ \<Rightarrow> None)
      else None)"

text \<open>\<open>carries s t\<close>: every defined bit of \<open>s\<close> is a bit of \<open>t\<close>, at the same position.\<close>

definition carries :: "bool \<Rightarrow> BitSlice \<Rightarrow> BitSlice \<Rightarrow> bool" where
  "carries BYTES_BIG_ENDIAN s t =
     (\<forall>p b. sliceBit BYTES_BIG_ENDIAN s p = Some b \<longrightarrow> sliceBit BYTES_BIG_ENDIAN t p = Some b)"

definition valid :: "BitSlice \<Rightarrow> bool" where
  "valid s = contentsValid (getRange s) (Contents s)"

section \<open>Specification-side definitions\<close>

text \<open>
  \<open>ExtendRange_described\<close> is the extension as the specification words it, to be compared
  with \<open>ExtendRange\<close>: an empty slice becomes an all-undefined slice over \<open>r\<close> (without
  contents when \<open>r\<close> is empty too); otherwise the contents are zero-extended to the width of
  \<open>r\<close> and shifted left, on a big-endian target by the last-side delta when it is not zero,
  on a little-endian target by the first-side delta when the slice does not start where
  \<open>r\<close> starts.
\<close>

definition ExtendRange_described :: "bool \<Rightarrow> BitSlice \<Rightarrow> SignedRange \<Rightarrow> BitSlice" where
  "ExtendRange_described BYTES_BIG_ENDIAN s r =
     (if slice_empty s
      then BitSlice r (if empty_range r then None else Some (UndefValue (IntegerTy (nat (getWidth r)))))
      else case Contents s of
        None \<Rightarrow> BitSlice r None
      | Some c \<Rightarrow>
          let Z = CreateZExtOrBitCast c (IntegerTy (nat (getWidth r)));
              lastDelta = Last r - Last (getRange s);
              firstDelta = First (getRange s) - First r
          in BitSlice r (Some
               (if BYTES_BIG_ENDIAN
                then (if lastDelta \<noteq> 0 then CreateShl Z (ConstantInt_get (getType Z) lastDelta) else Z)
                else (if First (getRange s) \<noteq> First r
                      then CreateShl Z (ConstantInt_get (getType Z) firstDelta) else Z))))"

text \<open>\<open>carries_on r s t\<close>: every defined bit of \<open>s\<close> inside \<open>r\<close> is a bit of \<open>t\<close>.\<close>

definition carries_on :: "bool \<Rightarrow> SignedRange \<Rightarrow> BitSlice \<Rightarrow> BitSlice \<Rightarrow> bool" where
  "carries_on be r s t =
     (\<forall>p b. First r \<le> p \<and> p < Last r \<and> sliceBit be s p = Some b \<longrightarrow> sliceBit be t p = Some b)"

text \<open>The two pairings of three slices: \<open>(x \<cdot> y) \<cdot> z\<close> and \<open>x \<cdot> (y \<cdot> z)\<close>.\<close>

definition merge_left :: "bool \<Rightarrow> BitSlice \<Rightarrow> BitSlice \<Rightarrow> BitSlice \<Rightarrow> error + BitSlice" where
  "merge_left be x y z = (case Merge be x y of Inl e \<Rightarrow> Inl e | Inr xy \<Rightarrow> Merge be xy z)"

definition merge_right :: "bool \<Rightarrow> BitSlice \<Rightarrow> BitSlice \<Rightarrow> BitSlice \<Rightarrow> error + BitSlice" where
  "merge_right be x y z = (case Merge be y z of Inl e \<Rightarrow> Inl e | Inr yz \<Rightarrow> Merge be x yz)"

definition merge_order :: "bool \<Rightarrow> bool \<Rightarrow> BitSlice \<Rightarrow> BitSlice \<Rightarrow> BitSlice \<Rightarrow> error + BitSlice" where
  "merge_order be leftFirst x y z = (if leftFirst then merge_left be x y z else merge_right be x y z)"

text \<open>The second \<open>Merge\<close> of a pairing gets non-intersecting ranges.\<close>

definition last_disjoint :: "bool \<Rightarrow> BitSlice \<Rightarrow> BitSlice \<Rightarrow> BitSlice \<Rightarrow> bool" where
  "last_disjoint leftFirst x y z =
     (if leftFirst then \<not> intersects (Join (getRange x) (getRange y)) (getRange z)
      else \<not> intersects (getRange x) (Join (getRange y) (getRange z)))"

definition hull3 :: "BitSlice \<Rightarrow> BitSlice \<Rightarrow> BitSlice \<Rightarrow> SignedRange" where
  "hull3 a b c = Join (Join (getRange a) (getRange b)) (getRange c)"

text \<open>Both \<open>Merge\<close> calls of a pairing get non-intersecting ranges.\<close>

definition admissible :: "bool \<Rightarrow> BitSlice \<Rightarrow> BitSlice \<Rightarrow> BitSlice \<Rightarrow> bool" where
  "admissible leftFirst x y z =
     (if leftFirst
      then \<not> intersects (getRange x) (getRange y) \<and> \<not> intersects (Join (getRange x) (getRange y)) (getRange z)
      else \<not> intersects (getRange y) (getRange z) \<and> \<not> intersects (getRange x) (Join (getRange y) (getRange z)))"

text \<open>\<open>isHull h S\<close>: \<open>h\<close> is the convex hull of the ranges in \<open>S\<close>.\<close>

definition isHull :: "SignedRange \<Rightarrow> SignedRange set \<Rightarrow> bool" where
  "isHull h S =
     ((empty_range h \<longleftrightarrow> (\<forall>r\<in>S. empty_range r)) \<and>
      (\<not> empty_range h \<longrightarrow>
         (\<forall>r\<in>S. \<not> empty_range r \<longrightarrow> First h \<le> First r \<and> Last r \<le> Last h) \<and>
         (\<exists>r\<in>S. \<not> empty_range r \<and> First r = First h) \<and>
         (\<exists>r\<in>S. \<not> empty_range r \<and> Last r = Last h)))"

text \<open>Three adjacent byte slices, and a 32-bit target with byte alignment throughout.\<close>

definition sliceA :: BitSlice where "sliceA = BitSlice (SignedRange 0 8) (Some (ConstantInt 8 1))"
definition sliceB :: BitSlice where "sliceB = BitSlice (SignedRange 8 16) (Some (ConstantInt 8 2))"
definition sliceC :: BitSlice where "sliceC = BitSlice (SignedRange 16 24) (Some (ConstantInt 8 3))"

definition TD32 :: TargetData where
  "TD32 = \<lparr>PointerSizeInBits = 32, ABIAlignment = (\<lambda>t. 1)\<rparr>"

text \<open>
  The memory image of a constant, bit by bit, as the specification words it: bit \<open>k\<close> of an
  integer of width \<open>w\<close> and store size \<open>S\<close> is bit \<open>k\<close> of its value on a little-endian
  target (for \<open>k < w\<close>) and bit \<open>S - 1 - k\<close> of its value on a big-endian target (for
  \<open>S - w \<le> k < S\<close>); the elements of an array or vector lie at multiples of the element's
  alloc size, the fields of a struct at their offsets in the layout. Padding and undefined
  values have no defined bit.
\<close>

definition scalar_bit :: "bool \<Rightarrow> nat \<Rightarrow> nat \<Rightarrow> int \<Rightarrow> nat \<Rightarrow> bool option" where
  "scalar_bit be StoreSize w v k =
     (if be then (if StoreSize - w \<le> k \<and> k < StoreSize then Some (bit v (StoreSize - 1 - k)) else None)
      else (if k < w then Some (bit v k) else None))"

function memory_bit :: "TargetData \<Rightarrow> bool \<Rightarrow> Constant \<Rightarrow> nat \<Rightarrow> bool option" where
  "memory_bit TD be c k =
     (case c of
        ConstantInt w v \<Rightarrow> scalar_bit be (getTypeStoreSizeInBits TD (getType c)) w v k
      | ConstantFP kind v \<Rightarrow>
          scalar_bit be (getTypeStoreSizeInBits TD (getType c)) (getPrimitiveSizeInBits (getType c)) v k
      | ConstantPointer pointee v \<Rightarrow>
          scalar_bit be (getTypeStoreSizeInBits TD (getType c)) (PointerSizeInBits TD) v k
      | UndefValue ty \<Rightarrow> None
      | ConstantArray ety cs \<Rightarrow>
          (let Stride = getTypeAllocSizeInBits TD ety in
           if Stride = 0 \<or> \<not> k div Stride < length cs then None
           else memory_bit TD be (cs ! (k div Stride)) (k mod Stride))
      | ConstantVector ety cs \<Rightarrow>
          (let Stride = getTypeAllocSizeInBits TD ety in
           if Stride = 0 \<or> \<not> k div Stride < length cs then None
           else memory_bit TD be (cs ! (k div Stride)) (k mod Stride))
      | ConstantStruct packed cs \<Rightarrow>
          (let SL = getStructLayout TD (map getType cs) packed in
           case filter (\<lambda>i. SL ! i * 8 \<le> k \<and> k < SL ! i * 8 + getTypeStoreSizeInBits TD (getType (cs ! i)))
                       [0 ..< length cs] of
             [] \<Rightarrow> None
           | i # is \<Rightarrow> if i < length cs then memory_bit TD be (cs ! i) (k - SL ! i * 8) else None))"
  by pat_completeness auto
termination
  by (relation "measure (\<lambda>(TD, be, c, k). constWeight c)")
     (auto intro!: le_imp_less_Suc sum_list_nth_le)

text \<open>The bit of a field at an absolute position: the constant's first bit is at \<open>Starts\<close>.\<close>

definition field_bit :: "TargetData \<Rightarrow> bool \<Rightarrow> FieldContents \<Rightarrow> int \<Rightarrow> bool option" where
  "field_bit TD be F p =
     (if First (fieldRange F) \<le> p \<and> p < Last (fieldRange F) \<and> Starts F \<le> p
      then (case fieldConstant F of None \<Rightarrow> None | Some c \<Rightarrow> memory_bit TD be c (nat (p - Starts F)))
      else None)"

definition two_bytes_struct :: Constant where
  "two_bytes_struct = ConstantStruct False [ConstantInt 8 255, ConstantInt 8 255]"

definition two_bytes_array :: Constant where
  "two_bytes_array = ConstantArray (IntegerTy 8) [ConstantInt 8 255, ConstantInt 8 255]"

section \<open>Scenarios\<close>

text \<open>
  \<^verbatim>\<open>isInt64\<close> and \<^verbatim>\<open>getInt64\<close> as GCC's \<^verbatim>\<open>host_integerp\<close> gives them: an integer constant
  that fits 64 bits (unsigned: and is not negative), and no other node; the source uses
  \<^verbatim>\<open>isInt64(DECL_SIZE(field), true)\<close> for "a size was specified for the field".
\<close>

definition isInt64_cst :: "tree \<Rightarrow> bool \<Rightarrow> bool" where
  "isInt64_cst t Unsigned =
     (case int_cst_value t of
        None \<Rightarrow> False
      | Some v \<Rightarrow> if Unsigned then 0 \<le> v \<and> v < 2 ^ 64 else - (2 ^ 63) \<le> v \<and> v < 2 ^ 63)"

definition getInt64_cst :: "tree \<Rightarrow> bool \<Rightarrow> nat" where
  "getInt64_cst t Unsigned = (case int_cst_value t of None \<Rightarrow> 0 | Some v \<Rightarrow> nat (take_bit 64 v))"

definition bitsizetype :: tree where
  "bitsizetype = TYPE_NODE INTEGER_TYPE 0 NULL_TREE NULL_TREE 64 True 64 NULL_TREE NULL_TREE NULL_TREE NULL_TREE NULL_TREE 0"

definition bitfield_type :: "nat \<Rightarrow> nat \<Rightarrow> tree" where
  "bitfield_type uid precision =
     TYPE_NODE INTEGER_TYPE uid (INTEGER_CST bitsizetype 8) (INTEGER_CST bitsizetype 1) 8 True precision
       NULL_TREE NULL_TREE NULL_TREE NULL_TREE NULL_TREE 0"

definition field_b :: tree where
  "field_b = DECL FIELD_DECL 11 (bitfield_type 2 5) (INTEGER_CST bitsizetype 5) NULL_TREE"

definition field_a :: tree where
  "field_a = DECL FIELD_DECL 10 (bitfield_type 1 3) (INTEGER_CST bitsizetype 3) field_b"

definition bitfield_struct :: tree where
  "bitfield_struct =
     TYPE_NODE RECORD_TYPE 3 (INTEGER_CST bitsizetype 8) (INTEGER_CST bitsizetype 1) 8 False 0
       NULL_TREE NULL_TREE field_a NULL_TREE NULL_TREE 0"

definition bitfield_ctor :: tree where
  "bitfield_ctor =
     CONSTRUCTOR bitfield_struct
       [(field_a, INTEGER_CST (bitfield_type 1 3) 5), (field_b, INTEGER_CST (bitfield_type 2 5) 17)]"

definition char_type :: tree where
  "char_type =
     TYPE_NODE INTEGER_TYPE 20 (INTEGER_CST bitsizetype 8) (INTEGER_CST bitsizetype 1) 8 False 8
       NULL_TREE NULL_TREE NULL_TREE NULL_TREE NULL_TREE 0"

definition int_type :: tree where
  "int_type =
     TYPE_NODE INTEGER_TYPE 21 (INTEGER_CST bitsizetype 32) (INTEGER_CST bitsizetype 4) 32 False 32
       NULL_TREE NULL_TREE NULL_TREE NULL_TREE NULL_TREE 0"

text \<open>The index type of an array: from 0 to \<open>mx\<close>, or without upper bound when \<open>mx\<close> is null.\<close>

definition index_type :: "tree \<Rightarrow> tree" where
  "index_type mx =
     TYPE_NODE INTEGER_TYPE 22 (INTEGER_CST bitsizetype 64) (INTEGER_CST bitsizetype 8) 64 True 64
       NULL_TREE NULL_TREE NULL_TREE (INTEGER_CST bitsizetype 0) mx 0"

definition char_array2 :: tree where
  "char_array2 =
     TYPE_NODE ARRAY_TYPE 23 (INTEGER_CST bitsizetype 16) (INTEGER_CST bitsizetype 2) 8 False 0
       char_type (index_type (INTEGER_CST bitsizetype 1)) NULL_TREE NULL_TREE NULL_TREE 0"

definition char_flexible :: tree where
  "char_flexible =
     TYPE_NODE ARRAY_TYPE 24 NULL_TREE NULL_TREE 8 False 0
       char_type (index_type NULL_TREE) NULL_TREE NULL_TREE NULL_TREE 0"

definition field_d :: tree where
  "field_d = DECL FIELD_DECL 31 char_flexible NULL_TREE NULL_TREE"

definition field_n :: tree where
  "field_n = DECL FIELD_DECL 30 int_type (INTEGER_CST bitsizetype 32) field_d"

text \<open>
  \<^verbatim>\<open>struct { int n; char d[]; }\<close>: the flexible array member adds nothing to the size of the
  type, which is the constant 32, and its declaration has no size.
\<close>

definition flexible_struct :: tree where
  "flexible_struct =
     TYPE_NODE RECORD_TYPE 25 (INTEGER_CST bitsizetype 32) (INTEGER_CST bitsizetype 4) 32 False 0
       NULL_TREE NULL_TREE field_n NULL_TREE NULL_TREE 0"

text \<open>The initial value \<^verbatim>\<open>{ 1, { 'a', 'b' } }\<close> of such a struct.\<close>

definition flexible_ctor :: tree where
  "flexible_ctor =
     CONSTRUCTOR flexible_struct [(field_n, INTEGER_CST int_type 1), (field_d, STRING_CST char_array2 [97, 98])]"

fun decl_uid :: "tree \<Rightarrow> nat" where
  "decl_uid (DECL code uid ty sz nxt) = uid"
| "decl_uid t = 0"

fun TYPE_UID :: "tree \<Rightarrow> nat" where
  "TYPE_UID (TYPE_NODE code uid sz szu al un pr elt dmn flds mn mx nsub) = uid"
| "TYPE_UID t = 0"

text \<open>GCC's encoding of an integer constant for a little-endian target.\<close>

fun encode_int_le :: "tree \<Rightarrow> nat \<Rightarrow> nat list" where
  "encode_int_le (INTEGER_CST ty v) n = map (\<lambda>i. nat (take_bit 8 (drop_bit (8 * i) v))) [0 ..< n]"
| "encode_int_le t n = []"

text \<open>A target on which an integer of up to 8, 16 or more bits is aligned to 1, 2 or 4 bytes.\<close>

definition TD_bytes :: TargetData where
  "TD_bytes = \<lparr>PointerSizeInBits = 32,
     ABIAlignment = (\<lambda>t. case t of IntegerTy w \<Rightarrow> if w \<le> 8 then 1 else if w \<le> 16 then 2 else 4 | _ \<Rightarrow> 4)\<rparr>"

text \<open>
  The LLVM types of the scenarios' GCC types: the bitfield struct is one byte, the struct
  with the flexible array member ends in an array of no elements, an array has as many
  elements as its domain says (none without upper bound), an integer has its precision.
\<close>

definition scenario_type :: "tree \<Rightarrow> Type" where
  "scenario_type t =
     (if TREE_CODE t = RECORD_TYPE then
        (if TYPE_UID t = 25 then StructTy [IntegerTy 32, ArrayTy (IntegerTy 8) 0] False
         else StructTy [IntegerTy 8] False)
      else if TREE_CODE t = ARRAY_TYPE then
        ArrayTy (IntegerTy 8)
          (case int_cst_value (TYPE_MAX_VALUE (TYPE_DOMAIN t)) of None \<Rightarrow> 0 | Some n \<Rightarrow> nat n + 1)
      else IntegerTy (TYPE_PRECISION t))"

text \<open>
  A little-endian target and host, in the build with the checks; \<open>seed\<close> is
  \<^verbatim>\<open>flag_default_initialize_globals\<close>.
\<close>

definition scenario_env :: "bool \<Rightarrow> Env" where
  "scenario_env seed =
     \<lparr>getTargetData = TD_bytes,
      BytesBigEndian = False,
      BigEndianHost = False,
      DefaultInitializeGlobals = seed,
      PointerOverflowUndefined = True,
      NDEBUG = False,
      ConvertType = scenario_type,
      getDefaultValue = getNullValue,
      isSequentialCompatible = (\<lambda>t. True),
      ArrayLengthOf = (\<lambda>t. None),
      OffsetIsLLVMCompatible = (\<lambda>t. True),
      getFieldOffsetInBits = (\<lambda>t. if decl_uid t = 11 then 3 else if decl_uid t = 31 then 32 else 0),
      isInt64 = isInt64_cst,
      getInt64 = getInt64_cst,
      native_encode_expr = encode_int_le,
      AddressOf = (\<lambda>t. Inl (DieAbjectly ''Unknown constant to take the address of!'')),
      CreateCast = (\<lambda>c s ty d. UndefValue ty),
      CreateGetElementPtr = (\<lambda>inb p i. p)\<rparr>"

text \<open>The same in the build without the checks.\<close>

definition release_env :: "bool \<Rightarrow> Env" where
  "release_env seed = (scenario_env seed)\<lparr>NDEBUG := True\<rparr>"

text \<open>
  Modelled from the spec: \<^verbatim>\<open>getDefaultValue\<close> is declared outside the sources. The spec calls
  its value a per-type default, "typically all-zero", and the source makes zeroing a matter
  of \<^verbatim>\<open>flag_default_initialize_globals\<close>. This is the environment in which the default of a
  type is its undefined value.
\<close>

definition undef_default_env :: Env where
  "undef_default_env = (scenario_env False)\<lparr>getDefaultValue := UndefValue\<rparr>"

text \<open>
  \<^verbatim>\<open>typedef int unaligned_int __attribute__((aligned(1)))\<close>: a 32-bit integer type whose
  alignment is 8 bits.
\<close>

definition unaligned_int :: tree where
  "unaligned_int =
     TYPE_NODE INTEGER_TYPE 26 (INTEGER_CST bitsizetype 32) (INTEGER_CST bitsizetype 4) 8 False 32
       NULL_TREE NULL_TREE NULL_TREE NULL_TREE NULL_TREE 0"

section \<open>Extension, reduction and merging, bit by bit\<close>

lemma intTy_cases:
  assumes "isIntegerTy (getType k)"
  obtains w v where "k = ConstantInt w v" | w where "k = UndefValue (IntegerTy w)"
proof (cases k)
  case (ConstantFP x21 x22)
  then show ?thesis using assms by (cases x21) auto
qed (use assms in \<open>auto elim: isIntegerTy.elims\<close>)

lemma extend_nonempty:
  assumes "\<not> empty_range r1" "contains r2 r1" "contentsValid r1 (Some v)"
  shows "ExtendRange be (BitSlice r1 (Some v)) r2 = 
     Inr (BitSlice r2 (Some (let C = CreateZExtOrBitCast v (IntegerTy (nat (getWidth r2)))
          in if be then (if Last r2 - Last r1 \<noteq> 0 then CreateShl C (ConstantInt_get (getType C) (Last r2 - Last r1)) else C)
             else (if First r1 \<noteq> First r2 then CreateShl C (ConstantInt_get (getType C) (First r1 - First r2)) else C))))"
proof -
  from assms(3) assms(1) have ity: "isIntegerTy (getType v)" and w: "getWidth r1 = int (getPrimitiveSizeInBits (getType v))"
    by (auto simp: contentsValid_def)
  from assms have ne2: "\<not> empty_range r2" and le: "First r2 \<le> First r1" "Last r1 \<le> Last r2" "First r1 < Last r1"
    by (auto simp: contains_def empty_range_def split: if_splits)
  show ?thesis
  proof (cases "range_eq r1 r2")
    case True
    with assms(1) have "r1 = r2" by (cases r1; cases r2) (auto simp: range_eq_def)
    with ity w assms show ?thesis
      by (cases rule: intTy_cases[OF ity]) (auto simp: ExtendRange_def getWidth_def Let_def range_eq_def)
  next
    case False
    with le have neq: "First r1 \<noteq> First r2 \<or> Last r1 \<noteq> Last r2" by (auto simp: range_eq_def)
    show ?thesis using ity
    proof (cases rule: intTy_cases)
      case (1 w v)
      then show ?thesis using False assms ne2 le neq  w
        by (auto simp: ExtendRange_def Let_def slice_empty_def mkBitSlice_def contentsValid_def getWidth_def ConstantInt_get_def empty_range_def)
    next
      case (2 w)
      then show ?thesis using False assms ne2 le neq  w
        by (auto simp: ExtendRange_def Let_def slice_empty_def mkBitSlice_def contentsValid_def getWidth_def ConstantInt_get_def empty_range_def)
    qed
  qed
qed

lemma take_bit_small: "0 \<le> d \<Longrightarrow> d < int W \<Longrightarrow> take_bit W d = d"
proof -
  assume a: "0 \<le> d" "d < int W"
  have "nat d < 2 ^ W" using a by (meson less_exp less_trans nat_less_iff)
  hence "d < 2 ^ W" using a
    by (metis of_nat_less_iff nat_0_le of_nat_numeral of_nat_power)
  thus ?thesis using a by (simp add: take_bit_int_eq_self)
qed

lemma shl_const:
  "0 \<le> d \<Longrightarrow> d < int W \<Longrightarrow>
   CreateShl (ConstantInt W x) (ConstantInt_get (IntegerTy W) d) = ConstantInt W (take_bit W (push_bit (nat d) x))"
  by (simp add: ConstantInt_get_def take_bit_small)

lemma lshr_const:
  "0 \<le> d \<Longrightarrow> d < int W \<Longrightarrow>
   CreateLShr (ConstantInt W x) (ConstantInt_get (IntegerTy W) d) = ConstantInt W (drop_bit (nat d) x)"
  by (simp add: ConstantInt_get_def take_bit_small)

lemma shl_undef:
  "CreateShl (UndefValue (IntegerTy W)) (ConstantInt_get (IntegerTy W) d) = ConstantInt W 0"
  by (simp add: ConstantInt_get_def)

lemma lshr_undef:
  "CreateLShr (UndefValue (IntegerTy W)) (ConstantInt_get (IntegerTy W) d) = ConstantInt W 0"
  by (simp add: ConstantInt_get_def)

lemma getType_trunc: "getType (CreateTruncOrBitCast c (IntegerTy n)) = IntegerTy n"
  by (cases c) auto

lemma getType_zext: "getType (CreateZExtOrBitCast c (IntegerTy n)) = IntegerTy n"
  by (cases c) auto

lemma getType_lshr: "isIntegerTy (getType c) \<Longrightarrow> getType (CreateLShr c (ConstantInt_get ty d)) = getType c"
  by (erule intTy_cases) (auto simp: ConstantInt_get_def)

lemma getType_shl: "isIntegerTy (getType c) \<Longrightarrow> getType (CreateShl c (ConstantInt_get ty d)) = getType c"
  by (erule intTy_cases) (auto simp: ConstantInt_get_def)

lemma mkBitSlice_int:
  "\<not> empty_range r \<Longrightarrow> getType c = IntegerTy (nat (getWidth r)) \<Longrightarrow> mkBitSlice r (Some c) = Inr (BitSlice r (Some c))"
  by (auto simp: mkBitSlice_def contentsValid_def getWidth_def empty_range_def)

lemma reduce_nonempty:
  assumes "\<not> empty_range r" "contains R r" "contentsValid R (Some c)"
  shows "ReduceRange be (BitSlice R (Some c)) r =
     Inr (BitSlice r (Some (CreateTruncOrBitCast
          (if be then (if Last R - Last r \<noteq> 0 then CreateLShr c (ConstantInt_get (getType c) (Last R - Last r)) else c)
           else (if First r \<noteq> First R then CreateLShr c (ConstantInt_get (getType c) (First r - First R)) else c))
          (IntegerTy (nat (getWidth r))))))"
proof -
  from assms have neR: "\<not> empty_range R" and le: "First R \<le> First r" "Last r \<le> Last R" "First r < Last r"
    by (auto simp: contains_def empty_range_def split: if_splits)
  from assms(3) neR have ity: "isIntegerTy (getType c)" and w: "getWidth R = int (getPrimitiveSizeInBits (getType c))"
    by (auto simp: contentsValid_def)
  show ?thesis
  proof (cases "range_eq R r")
    case True
    with assms(1) have "R = r" by (cases R; cases r) (auto simp: range_eq_def)
    with ity w assms show ?thesis
      by (cases rule: intTy_cases[OF ity]) (auto simp: ReduceRange_def getWidth_def Let_def range_eq_def)
  next
    case False
    with le have neq: "First R \<noteq> First r \<or> Last R \<noteq> Last r" by (auto simp: range_eq_def)
    have d: "int (nat (Last R - Last r)) = Last R - Last r" "int (nat (First r - First R)) = First r - First R"
         "Last R - Last r \<le> 0 \<longleftrightarrow> Last R = Last r"  "First r - First R \<le> 0 \<longleftrightarrow> First r = First R"
         "Last R \<le> Last r \<longleftrightarrow> Last R = Last r"  "First r \<le> First R \<longleftrightarrow> First r = First R"
      using le by auto
    show ?thesis
      unfolding ReduceRange_def Let_def
      using False assms(1,2) neR le
      by (cases be; cases "Last R = Last r"; cases "First r = First R")
         (simp_all add: slice_empty_def d mkBitSlice_int getType_trunc del: CreateTruncOrBitCast.simps)
  qed
qed

text \<open>Values after extension, for integer contents.\<close>

definition extVal :: "bool \<Rightarrow> SignedRange \<Rightarrow> SignedRange \<Rightarrow> int \<Rightarrow> int" where
  "extVal be r1 r2 x = (let W = nat (getWidth r2) in 
       if be then (if Last r2 - Last r1 \<noteq> 0 then take_bit W (push_bit (nat (Last r2 - Last r1)) x) else x)
       else (if First r1 \<noteq> First r2 then take_bit W (push_bit (nat (First r1 - First r2)) x) else x))"

lemma extend_int:
  assumes "\<not> empty_range r1" "contains r2 r1" "getWidth r1 = int w"
  shows "ExtendRange be (BitSlice r1 (Some (ConstantInt w x))) r2 =
         Inr (BitSlice r2 (Some (ConstantInt (nat (getWidth r2)) (extVal be r1 r2 x))))"
proof -
  from assms have le: "First r2 \<le> First r1" "Last r1 \<le> Last r2" "First r1 < Last r1" "\<not> empty_range r2"
    by (auto simp: contains_def empty_range_def split: if_splits)
  have cv: "contentsValid r1 (Some (ConstantInt w x))" using assms by (simp add: contentsValid_def)
  have W: "getWidth r2 = Last r2 - First r2" "getWidth r1 = Last r1 - First r1" using le by (auto simp: getWidth_def empty_range_def)
  have d1: "Last r2 - Last r1 < int (nat (getWidth r2))" "First r1 - First r2 < int (nat (getWidth r2))"
    using le W by auto
  show ?thesis
    unfolding extend_nonempty[OF assms(1,2) cv] extVal_def
    using le d1 by (auto simp: Let_def shl_const)
qed

lemma bit_getBitsSet: "bit (getBitsSet W lo hi) n \<longleftrightarrow> n < W \<and> lo \<le> n \<and> n < hi"
  by (auto simp: getBitsSet_def bit_take_bit_iff bit_push_bit_iff bit_mask_iff)

definition cval :: "Constant \<Rightarrow> int" where
  "cval c = (case c of ConstantInt w x \<Rightarrow> x | _ \<Rightarrow> 0)"

definition posIdx :: "bool \<Rightarrow> SignedRange \<Rightarrow> int \<Rightarrow> nat" where
  "posIdx be r p = nat (if be then Last r - 1 - p else p - First r)"

lemma sliceBit_int:
  "sliceBit be (BitSlice r (Some (ConstantInt w x))) p =
     (if First r \<le> p \<and> p < Last r then Some (bit x (posIdx be r p)) else None)"
  by (simp add: sliceBit_def posIdx_def)

lemma sliceBit_undef [simp]:
  "sliceBit be (BitSlice r (Some (UndefValue ty))) p = None"
  by (simp add: sliceBit_def)

lemma sliceBit_none [simp]:
  "sliceBit be (BitSlice r None) p = None"
  by (simp add: sliceBit_def)

lemma bit_extVal:
  assumes "\<not> empty_range r1" "contains r2 r1" "First r1 \<le> p" "p < Last r1"
  shows "bit (extVal be r1 r2 x) (posIdx be r2 p) = bit x (posIdx be r1 p)"
proof -
  from assms have le: "First r2 \<le> First r1" "Last r1 \<le> Last r2" "First r1 < Last r1" "\<not> empty_range r2"
    by (auto simp: contains_def empty_range_def split: if_splits)
  have W: "getWidth r2 = Last r2 - First r2" using le by (auto simp: getWidth_def empty_range_def)
  show ?thesis
  proof (cases be)
    case True
    have a: "nat (Last r2 - 1 - p) < nat (Last r2 - First r2)" using assms le by auto
    have b: "nat (Last r2 - Last r1) \<le> nat (Last r2 - 1 - p)" using assms le by auto
    have c: "nat (Last r2 - 1 - p) - nat (Last r2 - Last r1) = nat (Last r1 - 1 - p)" using assms le by auto
    show ?thesis using True a b c le
      by (auto simp: extVal_def posIdx_def W bit_take_bit_iff bit_push_bit_iff)
  next
    case False
    have a: "nat (p - First r2) < nat (Last r2 - First r2)" using assms le by auto
    have b: "nat (First r1 - First r2) \<le> nat (p - First r2)" using assms le by auto
    have c: "nat (p - First r2) - nat (First r1 - First r2) = nat (p - First r1)" using assms le by auto
    show ?thesis using False a b c le
      by (auto simp: extVal_def posIdx_def W bit_take_bit_iff bit_push_bit_iff)
  qed
qed

lemma extend_strict:
  assumes "\<not> empty_range r1" "contains r2 r1" "contentsValid r1 (Some c)" "\<not> range_eq r1 r2"
  shows "ExtendRange be (BitSlice r1 (Some c)) r2 =
         Inr (BitSlice r2 (Some (ConstantInt (nat (getWidth r2)) (extVal be r1 r2 (cval c)))))"
proof -
  from assms(3) assms(1) have ity: "isIntegerTy (getType c)" and w: "getWidth r1 = int (getPrimitiveSizeInBits (getType c))"
    by (auto simp: contentsValid_def)
  from assms have le: "First r2 \<le> First r1" "Last r1 \<le> Last r2" "First r1 < Last r1" "\<not> empty_range r2"
    by (auto simp: contains_def empty_range_def split: if_splits)
  have W: "getWidth r2 = Last r2 - First r2" "getWidth r1 = Last r1 - First r1" using le by (auto simp: getWidth_def empty_range_def)
  from assms(4) le have neq: "First r1 \<noteq> First r2 \<or> Last r1 \<noteq> Last r2" by (auto simp: range_eq_def)
  show ?thesis using ity
  proof (cases rule: intTy_cases)
    case (1 w v)
    then show ?thesis using extend_int[OF assms(1,2), of w be v] w by (simp add: cval_def)
  next
    case (2 w')
    have ne: "w' \<noteq> nat (Last r2 - First r2)" using w W 2 neq le by auto
    have d1: "Last r2 - Last r1 < int (nat (getWidth r2))" "First r1 - First r2 < int (nat (getWidth r2))"
      using le W by auto
    show ?thesis unfolding extend_nonempty[OF assms(1,2,3)] extVal_def using 2 ne le d1 W
      by (auto simp: Let_def cval_def shl_const)
  qed
qed

definition redVal :: "bool \<Rightarrow> SignedRange \<Rightarrow> SignedRange \<Rightarrow> int \<Rightarrow> int" where
  "redVal be R r x =
     (let y = (if be then (if Last R - Last r \<noteq> 0 then drop_bit (nat (Last R - Last r)) x else x)
               else (if First r \<noteq> First R then drop_bit (nat (First r - First R)) x else x))
      in if getWidth R = getWidth r then y else take_bit (nat (getWidth r)) y)"

lemma reduce_int:
  assumes "\<not> empty_range r" "contains R r" "getWidth R = int W"
  shows "ReduceRange be (BitSlice R (Some (ConstantInt W x))) r =
         Inr (BitSlice r (Some (ConstantInt (nat (getWidth r)) (redVal be R r x))))"
proof -
  from assms have le: "First R \<le> First r" "Last r \<le> Last R" "First r < Last r" "\<not> empty_range R"
    by (auto simp: contains_def empty_range_def split: if_splits)
  have cv: "contentsValid R (Some (ConstantInt W x))" using assms le by (simp add: contentsValid_def)
  have Wd: "getWidth r = Last r - First r" "getWidth R = Last R - First R" using le by (auto simp: getWidth_def empty_range_def)
  have d1: "Last R - Last r < int W" "First r - First R < int W"
    using le Wd assms(3) by auto
  have Wn: "W = nat (Last R - First R)" using Wd assms(3) by auto
  show ?thesis
    unfolding reduce_nonempty[OF assms(1,2) cv] redVal_def
    using le d1 Wd by (auto simp: Let_def lshr_const Wn)
qed

lemma bit_redVal:
  assumes "\<not> empty_range r" "contains R r" "First r \<le> p" "p < Last r"
  shows "bit (redVal be R r x) (posIdx be r p) = bit x (posIdx be R p)"
proof -
  from assms have le: "First R \<le> First r" "Last r \<le> Last R" "First r < Last r" "\<not> empty_range R"
    by (auto simp: contains_def empty_range_def split: if_splits)
  have Wd: "getWidth r = Last r - First r" "getWidth R = Last R - First R" using le by (auto simp: getWidth_def empty_range_def)
  show ?thesis
  proof (cases be)
    case True
    have a: "nat (Last r - 1 - p) < nat (Last r - First r)" using assms le by auto
    have c: "nat (Last R - Last r) + nat (Last r - 1 - p) = nat (Last R - 1 - p)" using assms le by auto
    show ?thesis using True a c le
      by (auto simp: redVal_def posIdx_def Wd bit_take_bit_iff bit_drop_bit_eq Let_def)
  next
    case False
    have a: "nat (p - First r) < nat (Last r - First r)" using assms le by auto
    have c: "nat (First r - First R) + nat (p - First r) = nat (p - First R)" using assms le by auto
    show ?thesis using False a c le
      by (auto simp: redVal_def posIdx_def Wd bit_take_bit_iff bit_drop_bit_eq Let_def)
  qed
qed

definition sliceMask :: "bool \<Rightarrow> SignedRange \<Rightarrow> SignedRange \<Rightarrow> int" where
  "sliceMask be r H = (if be then getBitsSet (nat (getWidth H)) (nat (Last H - Last r)) (nat (Last H - First r))
                       else getBitsSet (nat (getWidth H)) (nat (First r - First H)) (nat (Last r - First H)))"

definition mergeVal :: "bool \<Rightarrow> SignedRange \<Rightarrow> Constant \<Rightarrow> SignedRange \<Rightarrow> Constant \<Rightarrow> int" where
  "mergeVal be r1 c1 r2 c2 =
     (let H = Join r1 r2; W = nat (getWidth H) in
        (extVal be r1 H (cval c1) AND take_bit W (NOT (sliceMask be r2 H))) OR
        (extVal be r2 H (cval c2) AND take_bit W (NOT (sliceMask be r1 H))))"

lemma disjoint_facts:
  assumes "\<not> empty_range r1" "\<not> empty_range r2" "\<not> intersects r1 r2"
  shows "contains (Join r1 r2) r1" "contains (Join r1 r2) r2" "\<not> range_eq r1 (Join r1 r2)" "\<not> range_eq r2 (Join r1 r2)"
        "\<not> empty_range (Join r1 r2)"
  using assms by (auto simp: contains_def Join_def empty_range_def intersects_def range_eq_def min_def max_def)

lemma merge_nonempty:
  assumes "\<not> empty_range r1" "\<not> empty_range r2" "\<not> intersects r1 r2"
      and "contentsValid r1 (Some c1)" "contentsValid r2 (Some c2)"
  shows "Merge be (BitSlice r1 (Some c1)) (BitSlice r2 (Some c2)) =
         Inr (BitSlice (Join r1 r2) (Some (ConstantInt (nat (getWidth (Join r1 r2))) (mergeVal be r1 c1 r2 c2))))"
proof -
  note d = disjoint_facts[OF assms(1-3)]
  have e1: "ExtendRange be (BitSlice r1 (Some c1)) (Join r1 r2) =
         Inr (BitSlice (Join r1 r2) (Some (ConstantInt (nat (getWidth (Join r1 r2))) (extVal be r1 (Join r1 r2) (cval c1)))))"
    by (rule extend_strict[OF assms(1) d(1) assms(4) d(3)])
  have e2: "ExtendRange be (BitSlice r2 (Some c2)) (Join r1 r2) =
         Inr (BitSlice (Join r1 r2) (Some (ConstantInt (nat (getWidth (Join r1 r2))) (extVal be r2 (Join r1 r2) (cval c2)))))"
    by (rule extend_strict[OF assms(2) d(2) assms(5) d(4)])
  have mk: "\<And>v. mkBitSlice (Join r1 r2) (Some (ConstantInt (nat (getWidth (Join r1 r2))) v)) =
        Inr (BitSlice (Join r1 r2) (Some (ConstantInt (nat (getWidth (Join r1 r2))) v)))"
    using d(5) by (simp add: mkBitSlice_int)
  show ?thesis
    unfolding Merge_def
    using assms(1-3)
    by (simp add: slice_empty_def e1 e2 Let_def mk mergeVal_def sliceMask_def ConstantInt_not_def)
qed

lemma bit_sliceMask:
  assumes "\<not> empty_range r" "contains H r" "First H \<le> p" "p < Last H"
  shows "bit (sliceMask be r H) (posIdx be H p) \<longleftrightarrow> First r \<le> p \<and> p < Last r"
proof -
  from assms have le: "First H \<le> First r" "Last r \<le> Last H" "First r < Last r" "\<not> empty_range H"
    by (auto simp: contains_def empty_range_def split: if_splits)
  have W: "getWidth H = Last H - First H" using le by (auto simp: getWidth_def empty_range_def)
  show ?thesis using assms le
    by (cases be) (auto simp: sliceMask_def bit_getBitsSet posIdx_def W)
qed

lemma posIdx_less:
  assumes "First H \<le> p" "p < Last H"
  shows "posIdx be H p < nat (getWidth H)"
  using assms by (auto simp: posIdx_def getWidth_def empty_range_def)

lemma bit_mergeVal1:
  assumes "\<not> empty_range r1" "\<not> empty_range r2" "\<not> intersects r1 r2" "First r1 \<le> p" "p < Last r1"
  shows "bit (mergeVal be r1 c1 r2 c2) (posIdx be (Join r1 r2) p) = bit (cval c1) (posIdx be r1 p)"
proof -
  note d = disjoint_facts[OF assms(1-3)]
  have inH: "First (Join r1 r2) \<le> p" "p < Last (Join r1 r2)"
    using assms by (auto simp: Join_def)
  have notin2: "\<not> (First r2 \<le> p \<and> p < Last r2)"
    using assms by (auto simp: intersects_def)
  show ?thesis
    unfolding mergeVal_def Let_def
    using bit_extVal[OF assms(1) d(1) assms(4,5), of be "cval c1"]
          bit_sliceMask[OF assms(2) d(2) inH, of be] bit_sliceMask[OF assms(1) d(1) inH, of be]
          posIdx_less[OF inH, of be] notin2 assms(4,5)
    by (simp add: bit_or_iff bit_and_iff bit_take_bit_iff bit_not_iff)
qed

lemma bit_mergeVal2:
  assumes "\<not> empty_range r1" "\<not> empty_range r2" "\<not> intersects r1 r2" "First r2 \<le> p" "p < Last r2"
  shows "bit (mergeVal be r1 c1 r2 c2) (posIdx be (Join r1 r2) p) = bit (cval c2) (posIdx be r2 p)"
proof -
  note d = disjoint_facts[OF assms(1-3)]
  have inH: "First (Join r1 r2) \<le> p" "p < Last (Join r1 r2)"
    using assms by (auto simp: Join_def)
  have notin1: "\<not> (First r1 \<le> p \<and> p < Last r1)"
    using assms by (auto simp: intersects_def)
  show ?thesis
    unfolding mergeVal_def Let_def
    using bit_extVal[OF assms(2) d(2) assms(4,5), of be "cval c2"]
          bit_sliceMask[OF assms(2) d(2) inH, of be] bit_sliceMask[OF assms(1) d(1) inH, of be]
          posIdx_less[OF inH, of be] notin1 assms(4,5)
    by (simp add: bit_or_iff bit_and_iff bit_take_bit_iff bit_not_iff)
qed

lemma valid_nonempty:
  assumes "valid s" "\<not> slice_empty s"
  obtains c where "s = BitSlice (getRange s) (Some c)" "contentsValid (getRange s) (Some c)"
  using assms by (cases s; cases "Contents s") (auto simp: valid_def contentsValid_def slice_empty_def)

lemma valid_empty:
  assumes "valid s" "slice_empty s"
  shows "Contents s = None"
  using assms by (auto simp: valid_def contentsValid_def slice_empty_def)

lemma ExtendRange_described_eq:
  assumes "valid s" and "contains r (getRange s)"
  shows "\<exists>t. ExtendRange BYTES_BIG_ENDIAN s r = Inr t
             \<and> range_eq (getRange t) (getRange (ExtendRange_described BYTES_BIG_ENDIAN s r))
             \<and> Contents t = Contents (ExtendRange_described BYTES_BIG_ENDIAN s r)"
proof (cases "slice_empty s")
  case True
  note c = valid_empty[OF assms(1) True]
  show ?thesis
  proof (cases "empty_range r")
    case True
    with \<open>slice_empty s\<close> c assms(2) show ?thesis
      by (simp add: ExtendRange_def ExtendRange_described_def slice_empty_def range_eq_def)
  next
    case False
    with True c assms(2) show ?thesis
      by (auto simp: ExtendRange_def ExtendRange_described_def slice_empty_def range_eq_def
            mkBitSlice_int empty_range_def)
  qed
next
  case False
  from valid_nonempty[OF assms(1) False] obtain c where
    s: "s = BitSlice (getRange s) (Some c)" and cv: "contentsValid (getRange s) (Some c)" by blast
  have ne: "\<not> empty_range (getRange s)" using False by (simp add: slice_empty_def)
  have "ExtendRange BYTES_BIG_ENDIAN (BitSlice (getRange s) (Some c)) r =
        Inr (ExtendRange_described BYTES_BIG_ENDIAN (BitSlice (getRange s) (Some c)) r)"
    unfolding extend_nonempty[OF ne assms(2) cv] ExtendRange_described_def
    using ne by (simp add: slice_empty_def Let_def)
  then show ?thesis using s by (metis range_eq_def)
qed

lemma sliceBit_empty: "slice_empty s \<Longrightarrow> sliceBit be s p = None"
  by (auto simp: sliceBit_def slice_empty_def empty_range_def)

lemma carries_refl: "carries be s s"
  by (simp add: carries_def)

lemma carries_trans: "carries be s t \<Longrightarrow> carries be t u \<Longrightarrow> carries be s u"
  by (simp add: carries_def)

lemma carries_empty: "slice_empty s \<Longrightarrow> carries be s t"
  by (simp add: carries_def sliceBit_empty)

lemma range_eq_nonempty: "\<not> empty_range a \<Longrightarrow> range_eq a b \<longleftrightarrow> a = b"
  by (cases a; cases b) (auto simp: range_eq_def empty_range_def)

lemma range_eq_refl: "range_eq a a"
  by (simp add: range_eq_def)

lemma valid_int: "\<not> empty_range r \<Longrightarrow> valid (BitSlice r (Some (ConstantInt (nat (getWidth r)) x)))"
  by (auto simp: valid_def contentsValid_def getWidth_def empty_range_def)

lemma Extend_carries:
  assumes "valid s" "contains r (getRange s)"
  shows "\<exists>t. ExtendRange be s r = Inr t \<and> valid t \<and> range_eq (getRange t) r \<and> carries be s t"
proof (cases "slice_empty s")
  case True
  obtain t where t: "ExtendRange be s r = Inr t" "range_eq (getRange t) (getRange (ExtendRange_described be s r))"
     "Contents t = Contents (ExtendRange_described be s r)"
    using ExtendRange_described_eq[OF assms] by blast
  have "valid t" using t True
    by (auto simp: valid_def ExtendRange_described_def contentsValid_def range_eq_def getWidth_def empty_range_def)
  moreover have "range_eq (getRange t) r" using t True by (simp add: ExtendRange_described_def)
  ultimately show ?thesis using t carries_empty[OF True] by blast
next
  case False
  from valid_nonempty[OF assms(1) False] obtain c where
    s: "s = BitSlice (getRange s) (Some c)" and cv: "contentsValid (getRange s) (Some c)" by blast
  have ne: "\<not> empty_range (getRange s)" using False by (simp add: slice_empty_def)
  from assms(2) ne have ne2: "\<not> empty_range r" by (auto simp: contains_def split: if_splits)
  from cv ne have ity: "isIntegerTy (getType c)" by (simp add: contentsValid_def)
  show ?thesis
  proof (cases "range_eq (getRange s) r")
    case True
    then have "ExtendRange be s r = Inr s" using assms(2) by (simp add: ExtendRange_def)
    then show ?thesis using True assms(1) carries_refl by blast
  next
    case neq: False
    have e: "ExtendRange be s r = Inr (BitSlice r (Some (ConstantInt (nat (getWidth r)) (extVal be (getRange s) r (cval c)))))"
      using extend_strict[OF ne assms(2) cv neq, of be] s by simp
    have "carries be s (BitSlice r (Some (ConstantInt (nat (getWidth r)) (extVal be (getRange s) r (cval c)))))"
    proof (cases rule: intTy_cases[OF ity])
      case ConstantInt: (1 w x)
      have in_r: "\<And>p. First (getRange s) \<le> p \<Longrightarrow> p < Last (getRange s) \<Longrightarrow> First r \<le> p \<and> p < Last r"
        using assms(2) ne by (auto simp: contains_def split: if_splits)
      show ?thesis unfolding carries_def
      proof (intro allI impI)
        fix p b assume a: "sliceBit be s p = Some b"
        then have inr: "First (getRange s) \<le> p" "p < Last (getRange s)"
          by (auto simp: sliceBit_def split: if_splits)
        from a s ConstantInt have "b = bit x (posIdx be (getRange s) p)"
          by (metis inr sliceBit_int option.inject)
        then show "sliceBit be (BitSlice r (Some (ConstantInt (nat (getWidth r)) (extVal be (getRange s) r (cval c))))) p = Some b"
          using in_r[OF inr] bit_extVal[OF ne assms(2) inr, of be x] ConstantInt
          by (simp add: sliceBit_int cval_def)
      qed
    next
      case (2 w)
      then show ?thesis using s by (metis carries_def sliceBit_undef option.discI)
    qed
    then show ?thesis using e valid_int[OF ne2] range_eq_refl by auto
  qed
qed

lemma valid_typed: "\<not> empty_range r \<Longrightarrow> getType c = IntegerTy (nat (getWidth r)) \<Longrightarrow> valid (BitSlice r (Some c))"
  by (auto simp: valid_def contentsValid_def getWidth_def empty_range_def)

lemma Reduce_carries:
  assumes "valid s" "contains (getRange s) r"
  shows "\<exists>t. ReduceRange be s r = Inr t \<and> valid t \<and> range_eq (getRange t) r \<and> carries_on be r s t"
proof (cases "empty_range r")
  case True
  have "\<exists>t. ReduceRange be s r = Inr t \<and> valid t \<and> range_eq (getRange t) r"
  proof (cases "range_eq (getRange s) r")
    case True
    then show ?thesis using assms by (auto simp: ReduceRange_def)
  next
    case False
    then show ?thesis using assms \<open>empty_range r\<close>
      by (auto simp: ReduceRange_def emptySlice_def valid_def contentsValid_def defaultRange_def
            empty_range_def range_eq_def)
  qed
  moreover have "\<And>t. carries_on be r s t" using True by (auto simp: carries_on_def empty_range_def)
  ultimately show ?thesis by blast
next
  case ne: False
  from assms(2) ne have neS: "\<not> empty_range (getRange s)" by (auto simp: contains_def split: if_splits)
  then have "\<not> slice_empty s" by (simp add: slice_empty_def)
  from valid_nonempty[OF assms(1) this] obtain c where
    s: "s = BitSlice (getRange s) (Some c)" and cv: "contentsValid (getRange s) (Some c)" by blast
  from cv neS have ity: "isIntegerTy (getType c)" and w: "getWidth (getRange s) = int (getPrimitiveSizeInBits (getType c))"
    by (simp_all add: contentsValid_def)
  show ?thesis
  proof (cases rule: intTy_cases[OF ity])
    case (1 w' x)
    have W: "getWidth (getRange s) = int w'" using w 1 by simp
    have e: "ReduceRange be s r = Inr (BitSlice r (Some (ConstantInt (nat (getWidth r)) (redVal be (getRange s) r x))))"
      using reduce_int[OF ne assms(2) W, of be x] s 1 by simp
    have "carries_on be r s (BitSlice r (Some (ConstantInt (nat (getWidth r)) (redVal be (getRange s) r x))))"
      unfolding carries_on_def
    proof (intro allI impI)
      fix p b assume a: "First r \<le> p \<and> p < Last r \<and> sliceBit be s p = Some b"
      then have inr: "First r \<le> p" "p < Last r" by auto
      have inS: "First (getRange s) \<le> p" "p < Last (getRange s)"
        using a by (auto simp: sliceBit_def split: if_splits)
      from a s 1 have "b = bit x (posIdx be (getRange s) p)"
        by (metis inS sliceBit_int option.inject)
      then show "sliceBit be (BitSlice r (Some (ConstantInt (nat (getWidth r)) (redVal be (getRange s) r x)))) p = Some b"
        using inr bit_redVal[OF ne assms(2) inr, of be x] by (simp add: sliceBit_int)
    qed
    then show ?thesis using e valid_int[OF ne] range_eq_refl by auto
  next
    case (2 w')
    obtain c' where e: "ReduceRange be s r = Inr (BitSlice r (Some c'))" and ty: "getType c' = IntegerTy (nat (getWidth r))"
      using reduce_nonempty[OF ne assms(2) cv, of be] s getType_trunc by metis
    have "carries_on be r s (BitSlice r (Some c'))"
      using s 2 by (metis carries_on_def sliceBit_undef option.discI)
    then show ?thesis using e valid_typed[OF ne ty] range_eq_refl by auto
  qed
qed

lemma valid_Join_int:
  "\<not> empty_range r1 \<Longrightarrow> \<not> empty_range r2 \<Longrightarrow> valid (BitSlice (Join r1 r2) (Some (ConstantInt (nat (getWidth (Join r1 r2))) x)))"
  by (rule valid_int) (auto simp: Join_def empty_range_def)

lemma Merge_carries:
  assumes "valid s1" "valid s2" "\<not> intersects (getRange s1) (getRange s2)"
  shows "\<exists>m. Merge be s1 s2 = Inr m \<and> valid m \<and> range_eq (getRange m) (Join (getRange s1) (getRange s2))
            \<and> carries be s1 m \<and> carries be s2 m"
proof (cases "slice_empty s2")
  case True
  then have "Merge be s1 s2 = Inr s1" by (simp add: Merge_def)
  moreover have "range_eq (getRange s1) (Join (getRange s1) (getRange s2))"
    using True by (auto simp: Join_def slice_empty_def range_eq_def)
  ultimately show ?thesis using assms(1) carries_refl carries_empty[OF True] by auto
next
  case ne2: False
  show ?thesis
  proof (cases "slice_empty s1")
    case True
    then have "Merge be s1 s2 = Inr s2" using ne2 by (simp add: Merge_def)
    moreover have "range_eq (getRange s2) (Join (getRange s1) (getRange s2))"
      using True by (auto simp: Join_def slice_empty_def range_eq_def)
    ultimately show ?thesis using assms(2) carries_refl carries_empty[OF True] by auto
  next
    case ne1: False
    from valid_nonempty[OF assms(1) ne1] obtain c1 where
      s1: "s1 = BitSlice (getRange s1) (Some c1)" and cv1: "contentsValid (getRange s1) (Some c1)" by blast
    from valid_nonempty[OF assms(2) ne2] obtain c2 where
      s2: "s2 = BitSlice (getRange s2) (Some c2)" and cv2: "contentsValid (getRange s2) (Some c2)" by blast
    have n1: "\<not> empty_range (getRange s1)" and n2: "\<not> empty_range (getRange s2)"
      using ne1 ne2 by (simp_all add: slice_empty_def)
    let ?H = "Join (getRange s1) (getRange s2)"
    let ?m = "BitSlice ?H (Some (ConstantInt (nat (getWidth ?H)) (mergeVal be (getRange s1) c1 (getRange s2) c2)))"
    have e: "Merge be s1 s2 = Inr ?m"
      using merge_nonempty[OF n1 n2 assms(3) cv1 cv2, of be] s1 s2 by simp
    note d = disjoint_facts[OF n1 n2 assms(3)]
    have inH1: "\<And>p. First (getRange s1) \<le> p \<Longrightarrow> p < Last (getRange s1) \<Longrightarrow> First ?H \<le> p \<and> p < Last ?H"
      using n1 n2 by (auto simp: Join_def)
    have inH2: "\<And>p. First (getRange s2) \<le> p \<Longrightarrow> p < Last (getRange s2) \<Longrightarrow> First ?H \<le> p \<and> p < Last ?H"
      using n1 n2 by (auto simp: Join_def)
    have c1: "carries be s1 ?m" unfolding carries_def
    proof (intro allI impI)
      fix p b assume a: "sliceBit be s1 p = Some b"
      then have inr: "First (getRange s1) \<le> p" "p < Last (getRange s1)"
        by (auto simp: sliceBit_def split: if_splits)
      from cv1 n1 have ity: "isIntegerTy (getType c1)" by (simp add: contentsValid_def)
      from a s1 obtain w x where c: "c1 = ConstantInt w x"
        by (cases rule: intTy_cases[OF ity]) (metis sliceBit_undef option.discI)+
      from a s1 c have "b = bit x (posIdx be (getRange s1) p)"
        by (metis inr sliceBit_int option.inject)
      then show "sliceBit be ?m p = Some b"
        using inH1[OF inr] bit_mergeVal1[OF n1 n2 assms(3) inr, of be c1 c2] c
        by (simp add: sliceBit_int cval_def)
    qed
    have c2: "carries be s2 ?m" unfolding carries_def
    proof (intro allI impI)
      fix p b assume a: "sliceBit be s2 p = Some b"
      then have inr: "First (getRange s2) \<le> p" "p < Last (getRange s2)"
        by (auto simp: sliceBit_def split: if_splits)
      from cv2 n2 have ity: "isIntegerTy (getType c2)" by (simp add: contentsValid_def)
      from a s2 obtain w x where c: "c2 = ConstantInt w x"
        by (cases rule: intTy_cases[OF ity]) (metis sliceBit_undef option.discI)+
      from a s2 c have "b = bit x (posIdx be (getRange s2) p)"
        by (metis inr sliceBit_int option.inject)
      then show "sliceBit be ?m p = Some b"
        using inH2[OF inr] bit_mergeVal2[OF n1 n2 assms(3) inr, of be c1 c2] c
        by (simp add: sliceBit_int cval_def)
    qed
    show ?thesis using e valid_Join_int[OF n1 n2] c1 c2 range_eq_refl by auto
  qed
qed

lemma intersects_cong1: "range_eq a a' \<Longrightarrow> intersects a b = intersects a' b"
  by (auto simp: range_eq_def intersects_def empty_range_def)

lemma intersects_cong2: "range_eq b b' \<Longrightarrow> intersects a b = intersects a b'"
  by (auto simp: range_eq_def intersects_def empty_range_def)

lemma range_eq_sym: "range_eq a b \<Longrightarrow> range_eq b a"
  by (auto simp: range_eq_def)

lemma range_eq_trans: "range_eq a b \<Longrightarrow> range_eq b c \<Longrightarrow> range_eq a c"
  by (auto simp: range_eq_def empty_range_def)

lemma Join_cong1: "range_eq a a' \<Longrightarrow> range_eq (Join a b) (Join a' b)"
  by (auto simp: range_eq_def Join_def empty_range_def)

lemma Join_cong2: "range_eq b b' \<Longrightarrow> range_eq (Join a b) (Join a b')"
  by (auto simp: range_eq_def Join_def empty_range_def)

lemma Join_assoc: "range_eq (Join a (Join b c)) (Join (Join a b) c)"
  by (auto simp: range_eq_def Join_def empty_range_def min_def max_def)

lemma Join_commute: "range_eq (Join a b) (Join b a)"
  by (auto simp: range_eq_def Join_def empty_range_def min_def max_def)

lemma triple_left:
  assumes "valid x" "valid y" "valid z" "\<not> intersects (getRange x) (getRange y)"
      and "\<not> intersects (Join (getRange x) (getRange y)) (getRange z)"
  shows "\<exists>m. merge_left be x y z = Inr m \<and> valid m \<and> range_eq (getRange m) (hull3 x y z)
            \<and> carries be x m \<and> carries be y m \<and> carries be z m"
proof -
  from Merge_carries[OF assms(1,2,4), of be] obtain xy where
    xy: "Merge be x y = Inr xy" "valid xy" "range_eq (getRange xy) (Join (getRange x) (getRange y))"
        "carries be x xy" "carries be y xy" by blast
  have d: "\<not> intersects (getRange xy) (getRange z)"
    using assms(5) intersects_cong1[OF xy(3)] by simp
  from Merge_carries[OF xy(2) assms(3) d, of be] obtain m where
    m: "Merge be xy z = Inr m" "valid m" "range_eq (getRange m) (Join (getRange xy) (getRange z))"
       "carries be xy m" "carries be z m" by blast
  have "range_eq (getRange m) (hull3 x y z)"
    unfolding hull3_def using m(3) Join_cong1[OF xy(3)] range_eq_trans by blast
  then show ?thesis using xy m carries_trans by (auto simp: merge_left_def)
qed

lemma triple_right:
  assumes "valid x" "valid y" "valid z" "\<not> intersects (getRange y) (getRange z)"
      and "\<not> intersects (getRange x) (Join (getRange y) (getRange z))"
  shows "\<exists>m. merge_right be x y z = Inr m \<and> valid m \<and> range_eq (getRange m) (hull3 x y z)
            \<and> carries be x m \<and> carries be y m \<and> carries be z m"
proof -
  from Merge_carries[OF assms(2,3,4), of be] obtain yz where
    yz: "Merge be y z = Inr yz" "valid yz" "range_eq (getRange yz) (Join (getRange y) (getRange z))"
        "carries be y yz" "carries be z yz" by blast
  have d: "\<not> intersects (getRange x) (getRange yz)"
    using assms(5) intersects_cong2[OF yz(3)] by simp
  from Merge_carries[OF assms(1) yz(2) d, of be] obtain m where
    m: "Merge be x yz = Inr m" "valid m" "range_eq (getRange m) (Join (getRange x) (getRange yz))"
       "carries be x m" "carries be yz m" by blast
  have "range_eq (getRange m) (hull3 x y z)"
    unfolding hull3_def using m(3) Join_cong2[OF yz(3)] Join_assoc range_eq_trans by blast
  then show ?thesis using yz m carries_trans by (auto simp: merge_right_def)
qed

lemma isHull_single: "isHull r {r}"
  by (simp add: isHull_def)

lemma isHull_Join: 
  assumes "isHull h S" shows "isHull (Join h r) (insert r S)"
proof (cases "empty_range h")
  case True
  then show ?thesis using assms by (auto simp: isHull_def Join_def)
next
  case h: False
  show ?thesis
  proof (cases "empty_range r")
    case True
    then show ?thesis using assms h by (auto simp: isHull_def Join_def)
  next
    case False
    have ne: "\<not> empty_range (Join h r)" using h False by (auto simp: Join_def empty_range_def)
    have J: "First (Join h r) = min (First h) (First r)" "Last (Join h r) = max (Last h) (Last r)"
      using h False by (simp_all add: Join_def)
    from assms h obtain r1 r2 where r: "r1 \<in> S" "\<not> empty_range r1" "First r1 = First h"
          "r2 \<in> S" "\<not> empty_range r2" "Last r2 = Last h"
      and b: "\<And>q. q \<in> S \<Longrightarrow> \<not> empty_range q \<Longrightarrow> First h \<le> First q \<and> Last q \<le> Last h"
      unfolding isHull_def by blast
    have 1: "\<forall>q\<in>insert r S. \<not> empty_range q \<longrightarrow> First (Join h r) \<le> First q \<and> Last q \<le> Last (Join h r)"
      using b J by (auto simp: min_def max_def dest!: b)
    have 2: "\<exists>q\<in>insert r S. \<not> empty_range q \<and> First q = First (Join h r)"
      using r False J by (cases "First h \<le> First r") (auto simp: min_def)
    have 3: "\<exists>q\<in>insert r S. \<not> empty_range q \<and> Last q = Last (Join h r)"
      using r False J by (cases "Last h \<le> Last r") (auto simp: max_def)
    show ?thesis unfolding isHull_def using ne 1 2 3 False by blast
  qed
qed

lemma isHull_unique:
  assumes "isHull h S" "isHull h' S" shows "range_eq h h'"
proof (cases "empty_range h")
  case True
  then show ?thesis using assms by (auto simp: isHull_def range_eq_def)
next
  case False
  then have ne': "\<not> empty_range h'" using assms by (auto simp: isHull_def)
  from assms(1) False obtain r1 r2 where r: "r1 \<in> S" "\<not> empty_range r1" "First r1 = First h"
          "r2 \<in> S" "\<not> empty_range r2" "Last r2 = Last h"
      and b: "\<And>q. q \<in> S \<Longrightarrow> \<not> empty_range q \<Longrightarrow> First h \<le> First q \<and> Last q \<le> Last h"
      unfolding isHull_def by blast
  from assms(2) ne' obtain r1' r2' where r': "r1' \<in> S" "\<not> empty_range r1'" "First r1' = First h'"
          "r2' \<in> S" "\<not> empty_range r2'" "Last r2' = Last h'"
      and b': "\<And>q. q \<in> S \<Longrightarrow> \<not> empty_range q \<Longrightarrow> First h' \<le> First q \<and> Last q \<le> Last h'"
      unfolding isHull_def by blast
  have "First h = First h'" using b[OF r'(1,2)] b'[OF r(1,2)] r(3) r'(3) by simp
  moreover have "Last h = Last h'" using b[OF r'(4,5)] b'[OF r(4,5)] r(6) r'(6) by simp
  ultimately show ?thesis by (simp add: range_eq_def)
qed

lemma isHull_hull3: "isHull (hull3 x y z) (getRange ` {x, y, z})"
proof -
  have "isHull (hull3 x y z) (insert (getRange z) (insert (getRange y) {getRange x}))"
    unfolding hull3_def by (intro isHull_Join isHull_single)
  moreover have "insert (getRange z) (insert (getRange y) {getRange x}) = getRange ` {x, y, z}" by auto
  ultimately show ?thesis by simp
qed

lemma hull3_set:
  assumes "{x, y, z} = {a, b, c}"
  shows "range_eq (hull3 x y z) (hull3 a b c)"
  using isHull_unique[OF isHull_hull3[of x y z]] isHull_hull3[of a b c] assms by simp

lemma merge_order_carries:
  assumes "valid x" "valid y" "valid z" "admissible l x y z"
  shows "\<exists>m. merge_order be l x y z = Inr m \<and> valid m \<and> range_eq (getRange m) (hull3 x y z)
            \<and> carries be x m \<and> carries be y m \<and> carries be z m"
proof (cases l)
  case True
  then show ?thesis using triple_left[OF assms(1-3), of be] assms(4)
    by (simp add: admissible_def merge_order_def)
next
  case False
  then show ?thesis using triple_right[OF assms(1-3), of be] assms(4)
    by (simp add: admissible_def merge_order_def)
qed

section \<open>The claims\<close>

text \<open>
  C1. Interpreting a constant as its own type at bit offset 0 returns the constant
  unchanged, for every constant (those of integer, pointer, floating-point, array,
  struct and vector type among them).
\<close>

theorem InterpretAsType_own_type:
  "InterpretAsType TD BYTES_BIG_ENDIAN v (getType v) 0 = Inr v"
  by (subst InterpretAsType.simps) simp

text \<open>
  C2. The size of \<^verbatim>\<open>struct { int n; char d[]; }\<close> is the constant 32, which fits 64 bits, and
  the LLVM type of the struct has an alloc size of 32 bits. The flexible array member has
  no size of its own, so the record builder takes its width from its initial value, and the
  constant that \<open>ConvertInitializer\<close> returns for \<^verbatim>\<open>{ 1, { 'a', 'b' } }\<close> has an alloc size of
  64 bits, not 32, with the checks and without them: the check "Constant too big for
  type!" asks \<open>isInt64\<close> of the type itself, not of its size, and a type is no integer
  constant.
\<close>

theorem ConvertInitializer_flexible_array:
  "isInt64_cst (TYPE_SIZE (TREE_TYPE flexible_ctor)) True
   \<and> getInt64_cst (TYPE_SIZE (TREE_TYPE flexible_ctor)) True = 32
   \<and> \<not> isInt64_cst (TREE_TYPE flexible_ctor) True
   \<and> isSized (ConvertType (scenario_env False) (TREE_TYPE flexible_ctor))
   \<and> getTypeAllocSizeInBits TD_bytes (ConvertType (scenario_env False) (TREE_TYPE flexible_ctor)) = 32
   \<and> ConvertInitializer (scenario_env False) flexible_ctor
       = Inr (ConstantStruct False
                [ConstantInt 32 1, ConstantArray (IntegerTy 8) [ConstantInt 8 97, ConstantInt 8 98]])
   \<and> ConvertInitializer (release_env False) flexible_ctor
       = Inr (ConstantStruct False
                [ConstantInt 32 1, ConstantArray (IntegerTy 8) [ConstantInt 8 97, ConstantInt 8 98]])
   \<and> getTypeAllocSizeInBits TD_bytes
         (getType (ConstantStruct False
                     [ConstantInt 32 1, ConstantArray (IntegerTy 8) [ConstantInt 8 97, ConstantInt 8 98]]))
       = 64"
  by code_simp

text \<open>
  C3. The constant 1 of a 32-bit integer type whose alignment was lowered to 8 bits, on a
  target that aligns a 32-bit integer to 4 bytes: without the checks \<open>ConvertInitializer\<close>
  returns the 32-bit integer 1, whose type has an ABI alignment of 32 bits, more than the
  8 bits of the GCC type; with the checks the conversion dies with "Constant over
  aligned!". The scalar path interprets the bytes as the LLVM type of the GCC type and
  has nothing that lowers the alignment, as the packing of the array and record builders
  does.
\<close>

theorem ConvertInitializer_underaligned_integer:
  "TYPE_ALIGN (TREE_TYPE (INTEGER_CST unaligned_int 1)) = 8
   \<and> ConvertInitializer (release_env False) (INTEGER_CST unaligned_int 1) = Inr (ConstantInt 32 1)
   \<and> getABITypeAlignment (getTargetData (release_env False)) (getType (ConstantInt 32 1)) * 8 = 32
   \<and> ConvertInitializer (scenario_env False) (INTEGER_CST unaligned_int 1)
       = Inl (DieAbjectly ''Constant over aligned!'')"
  by code_simp

text \<open>
  C4. \<open>ExtendRange(r)\<close>, for a slice whose range \<open>r\<close> contains: an empty slice gives an
  all-undefined slice over \<open>r\<close>; otherwise the contents are zero-extended to the width of
  \<open>r\<close> and then shifted left, on big-endian targets by the last-side delta when that is
  not zero, on little-endian targets by the first-side delta when the slice does not
  already start at the start of \<open>r\<close>. The result is compared with \<open>ExtendRange_described\<close>
  by range (all empty ranges being equal) and contents.
\<close>

theorem ExtendRange_as_described:
  assumes "valid s" and "contains r (getRange s)"
  shows "\<exists>t. ExtendRange BYTES_BIG_ENDIAN s r = Inr t
             \<and> range_eq (getRange t) (getRange (ExtendRange_described BYTES_BIG_ENDIAN s r))
             \<and> Contents t = Contents (ExtendRange_described BYTES_BIG_ENDIAN s r)"
  using ExtendRange_described_eq[OF assms] .

theorem ExtendRange_as_described_witness:
  "valid (BitSlice (SignedRange 8 16) (Some (ConstantInt 8 5)))
   \<and> contains (SignedRange 0 32) (getRange (BitSlice (SignedRange 8 16) (Some (ConstantInt 8 5))))
   \<and> ExtendRange False (BitSlice (SignedRange 8 16) (Some (ConstantInt 8 5))) (SignedRange 0 32)
       = Inr (BitSlice (SignedRange 0 32) (Some (ConstantInt 32 0x500)))
   \<and> ExtendRange True (BitSlice (SignedRange 8 16) (Some (ConstantInt 8 5))) (SignedRange 0 32)
       = Inr (BitSlice (SignedRange 0 32) (Some (ConstantInt 32 0x50000)))
   \<and> ExtendRange_described False (BitSlice (SignedRange 8 16) (Some (ConstantInt 8 5))) (SignedRange 0 32)
       = BitSlice (SignedRange 0 32) (Some (ConstantInt 32 0x500))
   \<and> ExtendRange_described True (BitSlice (SignedRange 8 16) (Some (ConstantInt 8 5))) (SignedRange 0 32)
       = BitSlice (SignedRange 0 32) (Some (ConstantInt 32 0x50000))"
proof -
  have v: "valid (BitSlice (SignedRange 8 16) (Some (ConstantInt 8 5)))" by code_simp
  have c: "contains (SignedRange 0 32) (getRange (BitSlice (SignedRange 8 16) (Some (ConstantInt 8 5))))"
    by code_simp
  have d1: "ExtendRange_described False (BitSlice (SignedRange 8 16) (Some (ConstantInt 8 5))) (SignedRange 0 32)
       = BitSlice (SignedRange 0 32) (Some (ConstantInt 32 0x500))" by code_simp
  have d2: "ExtendRange_described True (BitSlice (SignedRange 8 16) (Some (ConstantInt 8 5))) (SignedRange 0 32)
       = BitSlice (SignedRange 0 32) (Some (ConstantInt 32 0x50000))" by code_simp
  from ExtendRange_as_described[OF v c, of False] d1
  have e1: "ExtendRange False (BitSlice (SignedRange 8 16) (Some (ConstantInt 8 5))) (SignedRange 0 32)
       = Inr (BitSlice (SignedRange 0 32) (Some (ConstantInt 32 0x500)))"
    by (auto simp: range_eq_def empty_range_def intro!: BitSlice.expand SignedRange.expand)
  from ExtendRange_as_described[OF v c, of True] d2
  have e2: "ExtendRange True (BitSlice (SignedRange 8 16) (Some (ConstantInt 8 5))) (SignedRange 0 32)
       = Inr (BitSlice (SignedRange 0 32) (Some (ConstantInt 32 0x50000)))"
    by (auto simp: range_eq_def empty_range_def intro!: BitSlice.expand SignedRange.expand)
  show ?thesis using v c d1 d2 e1 e2 by simp
qed

text \<open>
  C5. For a non-empty range \<open>r1\<close> contained in \<open>r2\<close> and an integer constant \<open>v\<close> as wide as
  \<open>r1\<close>, \<open>BitSlice(r1, v).ExtendRange(r2).ReduceRange(r1)\<close> returns a slice with range
  \<open>r1\<close> that has every defined bit of the original slice.
\<close>

theorem ExtendRange_then_ReduceRange:
  assumes "\<not> empty_range r1" and "contains r2 r1" and "contentsValid r1 (Some v)"
  shows "\<exists>t. (case ExtendRange BYTES_BIG_ENDIAN (BitSlice r1 (Some v)) r2 of
                 Inl e \<Rightarrow> Inl e
               | Inr x \<Rightarrow> ReduceRange BYTES_BIG_ENDIAN x r1) = Inr t
             \<and> getRange t = r1
             \<and> carries BYTES_BIG_ENDIAN (BitSlice r1 (Some v)) t"
proof -
  let ?s = "BitSlice r1 (Some v)"
  have vs: "valid ?s" using assms(3) by (simp add: valid_def)
  have c: "contains r2 (getRange ?s)" using assms(2) by simp
  from Extend_carries[OF vs c, of BYTES_BIG_ENDIAN] obtain x where
    x: "ExtendRange BYTES_BIG_ENDIAN ?s r2 = Inr x" "valid x" "range_eq (getRange x) r2"
       "carries BYTES_BIG_ENDIAN ?s x" by blast
  have ne2: "\<not> empty_range r2" using assms(1,2) by (auto simp: contains_def split: if_splits)
  have rx: "getRange x = r2" using x(3) ne2
    by (metis range_eq_nonempty range_eq_sym)
  have c2: "contains (getRange x) r1" using rx assms(2) by simp
  from Reduce_carries[OF x(2) c2, of BYTES_BIG_ENDIAN] obtain t where
    t: "ReduceRange BYTES_BIG_ENDIAN x r1 = Inr t" "valid t" "range_eq (getRange t) r1"
       "carries_on BYTES_BIG_ENDIAN r1 x t" by blast
  have rt: "getRange t = r1" using t(3) assms(1) by (metis range_eq_nonempty range_eq_sym)
  have "carries BYTES_BIG_ENDIAN ?s t"
    unfolding carries_def
  proof (intro allI impI)
    fix p b assume a: "sliceBit BYTES_BIG_ENDIAN ?s p = Some b"
    then have "First r1 \<le> p \<and> p < Last r1" by (auto simp: sliceBit_def split: if_splits)
    moreover have "sliceBit BYTES_BIG_ENDIAN x p = Some b" using a x(4) by (simp add: carries_def)
    ultimately show "sliceBit BYTES_BIG_ENDIAN t p = Some b" using t(4) by (simp add: carries_on_def)
  qed
  then show ?thesis using x(1) t(1) rt by simp
qed

theorem ExtendRange_then_ReduceRange_witness:
  "\<not> empty_range (SignedRange 8 16) \<and> contains (SignedRange 0 32) (SignedRange 8 16)
   \<and> contentsValid (SignedRange 8 16) (Some (ConstantInt 8 0xA5))
   \<and> (case ExtendRange True (BitSlice (SignedRange 8 16) (Some (ConstantInt 8 0xA5))) (SignedRange 0 32) of
         Inl e \<Rightarrow> Inl e
       | Inr x \<Rightarrow> ReduceRange True x (SignedRange 8 16))
       = Inr (BitSlice (SignedRange 8 16) (Some (ConstantInt 8 0xA5)))
   \<and> (\<exists>t. (case ExtendRange True (BitSlice (SignedRange 8 16) (Some (ConstantInt 8 0xA5))) (SignedRange 0 32) of
                 Inl e \<Rightarrow> Inl e
               | Inr x \<Rightarrow> ReduceRange True x (SignedRange 8 16)) = Inr t
             \<and> getRange t = SignedRange 8 16
             \<and> carries True (BitSlice (SignedRange 8 16) (Some (ConstantInt 8 0xA5))) t)"
proof -
  have h1: "\<not> empty_range (SignedRange 8 16)" by code_simp
  have h2: "contains (SignedRange 0 32) (SignedRange 8 16)" by code_simp
  have h3: "contentsValid (SignedRange 8 16) (Some (ConstantInt 8 0xA5))" by code_simp
  have e: "(case ExtendRange True (BitSlice (SignedRange 8 16) (Some (ConstantInt 8 0xA5))) (SignedRange 0 32) of
         Inl e \<Rightarrow> Inl e
       | Inr x \<Rightarrow> ReduceRange True x (SignedRange 8 16))
       = Inr (BitSlice (SignedRange 8 16) (Some (ConstantInt 8 0xA5)))" by code_simp
  show ?thesis using ExtendRange_then_ReduceRange[OF h1 h2 h3, of True] h1 h2 h3 e by simp
qed

text \<open>
  C6, as amended. For three slices, any two pairing orders in each of which both
  \<open>Merge\<close> calls get non-intersecting ranges return slices with the same range, the convex
  hull of the three, and each has every defined bit of each of the three slices.
\<close>

theorem Merge_triple_admissible_orders:
  assumes "valid a" "valid b" "valid c"
      and "{x, y, z} = {a, b, c}" and "{x', y', z'} = {a, b, c}"
      and "admissible l x y z" and "admissible l' x' y' z'"
  shows "\<exists>m m'. merge_order BYTES_BIG_ENDIAN l x y z = Inr m
              \<and> merge_order BYTES_BIG_ENDIAN l' x' y' z' = Inr m'
              \<and> range_eq (getRange m) (hull3 a b c) \<and> range_eq (getRange m') (hull3 a b c)
              \<and> carries BYTES_BIG_ENDIAN a m \<and> carries BYTES_BIG_ENDIAN b m \<and> carries BYTES_BIG_ENDIAN c m
              \<and> carries BYTES_BIG_ENDIAN a m' \<and> carries BYTES_BIG_ENDIAN b m' \<and> carries BYTES_BIG_ENDIAN c m'"
proof -
  have v: "valid x" "valid y" "valid z" "valid x'" "valid y'" "valid z'"
    using assms(1-5) by (metis insertCI insertE singletonD)+
  from merge_order_carries[OF v(1-3) assms(6), of BYTES_BIG_ENDIAN] obtain m where
    m: "merge_order BYTES_BIG_ENDIAN l x y z = Inr m" "range_eq (getRange m) (hull3 x y z)"
       "carries BYTES_BIG_ENDIAN x m" "carries BYTES_BIG_ENDIAN y m" "carries BYTES_BIG_ENDIAN z m" by blast
  from merge_order_carries[OF v(4-6) assms(7), of BYTES_BIG_ENDIAN] obtain m' where
    m': "merge_order BYTES_BIG_ENDIAN l' x' y' z' = Inr m'" "range_eq (getRange m') (hull3 x' y' z')"
       "carries BYTES_BIG_ENDIAN x' m'" "carries BYTES_BIG_ENDIAN y' m'" "carries BYTES_BIG_ENDIAN z' m'" by blast
  have r: "range_eq (getRange m) (hull3 a b c)" "range_eq (getRange m') (hull3 a b c)"
    using m(2) m'(2) hull3_set[OF assms(4)] hull3_set[OF assms(5)] range_eq_trans by blast+
  have c1: "carries BYTES_BIG_ENDIAN a m \<and> carries BYTES_BIG_ENDIAN b m \<and> carries BYTES_BIG_ENDIAN c m"
    using m(3-5) assms(4) by (metis insertCI insertE singletonD)
  have c2: "carries BYTES_BIG_ENDIAN a m' \<and> carries BYTES_BIG_ENDIAN b m' \<and> carries BYTES_BIG_ENDIAN c m'"
    using m'(3-5) assms(5) by (metis insertCI insertE singletonD)
  show ?thesis using m(1) m'(1) r c1 c2 by blast
qed

theorem Merge_triple_admissible_orders_witness:
  "valid sliceA \<and> valid sliceB \<and> valid sliceC
   \<and> admissible True sliceA sliceB sliceC \<and> admissible False sliceC sliceA sliceB
   \<and> merge_order False True sliceA sliceB sliceC
       = Inr (BitSlice (SignedRange 0 24) (Some (ConstantInt 24 0x030201)))
   \<and> merge_order False False sliceC sliceA sliceB
       = Inr (BitSlice (SignedRange 0 24) (Some (ConstantInt 24 0x030201)))
   \<and> (\<exists>m m'. merge_order False True sliceA sliceB sliceC = Inr m
              \<and> merge_order False False sliceC sliceA sliceB = Inr m'
              \<and> range_eq (getRange m) (hull3 sliceA sliceB sliceC) \<and> range_eq (getRange m') (hull3 sliceA sliceB sliceC)
              \<and> carries False sliceA m \<and> carries False sliceB m \<and> carries False sliceC m
              \<and> carries False sliceA m' \<and> carries False sliceB m' \<and> carries False sliceC m')"
proof -
  have v: "valid sliceA" "valid sliceB" "valid sliceC" by code_simp+
  have a1: "admissible True sliceA sliceB sliceC" by code_simp
  have a2: "admissible False sliceC sliceA sliceB" by code_simp
  have s: "{sliceC, sliceA, sliceB} = {sliceA, sliceB, sliceC}" by auto
  have e1: "merge_order False True sliceA sliceB sliceC
       = Inr (BitSlice (SignedRange 0 24) (Some (ConstantInt 24 0x030201)))" by code_simp
  have e2: "merge_order False False sliceC sliceA sliceB
       = Inr (BitSlice (SignedRange 0 24) (Some (ConstantInt 24 0x030201)))" by code_simp
  show ?thesis
    using Merge_triple_admissible_orders[OF v refl s a1 a2, of False] v a1 a2 e1 e2 by simp
qed

text \<open>
  C6 as stated fails: with three adjacent bytes, merging the two outer ones first leaves
  a hull that contains the middle one, and the second \<open>Merge\<close> is rejected by its
  disjointness assertion, while merging neighbours first succeeds.
\<close>

theorem Merge_outer_pair_first_counterexample:
  "valid sliceA \<and> valid sliceB \<and> valid sliceC
   \<and> \<not> intersects (getRange sliceA) (getRange sliceB)
   \<and> \<not> intersects (getRange sliceA) (getRange sliceC)
   \<and> \<not> intersects (getRange sliceB) (getRange sliceC)
   \<and> merge_order False True sliceA sliceB sliceC
       = Inr (BitSlice (SignedRange 0 24) (Some (ConstantInt 24 0x030201)))
   \<and> merge_order False True sliceA sliceC sliceB = Inl (AssertionFailed ''Slices overlap!'')
   \<and> merge_order True True sliceA sliceC sliceB = Inl (AssertionFailed ''Slices overlap!'')"
  by code_simp

text \<open>
  C7. A struct of one byte with a 3-bit field at bit 0 and a 5-bit field at bit 3, and a
  constructor that sets them to 5 and 17, on a little-endian target: the two fields joined
  are one interval of 8 bits with the value \<open>5 | (17 << 3) = 141\<close>, and the constructor is
  converted to a struct of the single byte 141, whether fields are zeroed first or not.
\<close>

theorem ConvertRecordCONSTRUCTOR_bitfields:
  "JoinWith TD_bytes False (FieldContents (SignedRange 0 3) (Some (ConstantInt 3 5)) 0)
                           (FieldContents (SignedRange 3 8) (Some (ConstantInt 5 17)) 3)
     = Inr (FieldContents (SignedRange 0 8) (Some (ConstantInt 8 141)) 0)
   \<and> ConvertInitializer (scenario_env False) bitfield_ctor = Inr (ConstantStruct False [ConstantInt 8 141])
   \<and> ConvertInitializer (scenario_env True) bitfield_ctor = Inr (ConstantStruct False [ConstantInt 8 141])
   \<and> (141 :: int) = 5 OR push_bit 3 17"
  by code_simp

text \<open>
  C8. The 32-bit constant \<open>0x01020304\<close> read as a 16-bit integer: at bit 0 it is
  \<open>0x0304\<close> and at bit 16 it is \<open>0x0102\<close> on a little-endian target, and the other way
  round on a big-endian target.
\<close>

theorem InterpretAsType_halves:
  "InterpretAsType TD32 False (ConstantInt 32 0x01020304) (IntegerTy 16) 0 = Inr (ConstantInt 16 0x0304)
   \<and> InterpretAsType TD32 False (ConstantInt 32 0x01020304) (IntegerTy 16) 16 = Inr (ConstantInt 16 0x0102)
   \<and> InterpretAsType TD32 True (ConstantInt 32 0x01020304) (IntegerTy 16) 0 = Inr (ConstantInt 16 0x0102)
   \<and> InterpretAsType TD32 True (ConstantInt 32 0x01020304) (IntegerTy 16) 16 = Inr (ConstantInt 16 0x0304)"
  by code_simp

text \<open>
  C9, as amended. \<open>ConvertCONSTRUCTOR\<close> on a constructor without elements returns the
  value that \<open>getDefaultValue\<close> gives for the LLVM type of the constructor's type,
  whatever kind of aggregate the type is and whatever the array, vector or record builder
  would do with the constructor.
\<close>

theorem ConvertCONSTRUCTOR_no_elements:
  assumes "CONSTRUCTOR_NELTS exp = 0"
  shows "ConvertCONSTRUCTOR env exp Converted = Inr (getDefaultValue env (ConvertType env (TREE_TYPE exp)))"
  using assms by (simp add: ConvertCONSTRUCTOR_def)

theorem ConvertCONSTRUCTOR_no_elements_witness:
  "CONSTRUCTOR_NELTS (CONSTRUCTOR bitfield_struct []) = 0
   \<and> ConvertCONSTRUCTOR (scenario_env False) (CONSTRUCTOR bitfield_struct []) []
       = Inr (ConstantStruct False [ConstantInt 8 0])
   \<and> CONSTRUCTOR_NELTS (CONSTRUCTOR char_array2 []) = 0
   \<and> ConvertCONSTRUCTOR (scenario_env False) (CONSTRUCTOR char_array2 []) []
       = Inr (ConstantArray (IntegerTy 8) [ConstantInt 8 0, ConstantInt 8 0])"
proof -
  have n: "CONSTRUCTOR_NELTS (CONSTRUCTOR bitfield_struct []) = 0"
          "CONSTRUCTOR_NELTS (CONSTRUCTOR char_array2 []) = 0"
    by (simp_all add: CONSTRUCTOR_NELTS_def)
  have d: "getDefaultValue (scenario_env False) (ConvertType (scenario_env False) (TREE_TYPE (CONSTRUCTOR bitfield_struct [])))
             = ConstantStruct False [ConstantInt 8 0]"
          "getDefaultValue (scenario_env False) (ConvertType (scenario_env False) (TREE_TYPE (CONSTRUCTOR char_array2 [])))
             = ConstantArray (IntegerTy 8) [ConstantInt 8 0, ConstantInt 8 0]"
    by code_simp+
  from ConvertCONSTRUCTOR_no_elements[OF n(1), of "scenario_env False" "[]"]
       ConvertCONSTRUCTOR_no_elements[OF n(2), of "scenario_env False" "[]"] n d
  show ?thesis by simp
qed

text \<open>
  C9 as stated fails: where the default of a type is its undefined value, the constructor
  of the one-byte struct without elements is converted to the undefined struct, which is
  not the zero of the type.
\<close>

theorem ConvertCONSTRUCTOR_undef_default_counterexample:
  "CONSTRUCTOR_NELTS (CONSTRUCTOR bitfield_struct []) = 0
   \<and> ConvertCONSTRUCTOR undef_default_env (CONSTRUCTOR bitfield_struct []) []
       = Inr (UndefValue (StructTy [IntegerTy 8] False))
   \<and> UndefValue (StructTy [IntegerTy 8] False)
       \<noteq> getNullValue (ConvertType undef_default_env (TREE_TYPE (CONSTRUCTOR bitfield_struct [])))"
  by code_simp

text \<open>
  C10. \<open>extractContents\<close> on a field that holds the struct of bytes \<open>{255, 255}\<close> from bit
  0 and whose range was changed to bits 4 to 12: every bit of the field in the range is
  one, yet the byte returned is \<open>0xF0\<close>; its alloc size, 8 bits, is the width of the range.
  \<open>ViewAsBits\<close> starts a struct at the field that holds byte \<^verbatim>\<open>(R.getFirst()+7)/8\<close>, the
  first byte after bit 4, and so leaves out bits 4 to 7. With the same bytes in an array,
  where the first element is found by rounding down, the byte returned is \<open>0xFF\<close>.
\<close>

theorem extractContents_struct_unaligned:
  "FieldContents_get 0 16 two_bytes_struct = Inr (FieldContents (SignedRange 0 16) (Some two_bytes_struct) 0)
   \<and> ChangeRangeTo (FieldContents (SignedRange 0 16) (Some two_bytes_struct) 0) (SignedRange 4 12)
       = FieldContents (SignedRange 4 12) (Some two_bytes_struct) 0
   \<and> map (field_bit TD_bytes False (FieldContents (SignedRange 4 12) (Some two_bytes_struct) 0)) [4, 5, 6, 7, 8, 9, 10, 11]
       = replicate 8 (Some True)
   \<and> extractContents TD_bytes False (FieldContents (SignedRange 4 12) (Some two_bytes_struct) 0)
       = Inr (ConstantInt 8 240, FieldContents (SignedRange 4 12) (Some (ConstantInt 8 240)) 4)
   \<and> map (field_bit TD_bytes False (FieldContents (SignedRange 4 12) (Some (ConstantInt 8 240)) 4)) [4, 5, 6, 7, 8, 9, 10, 11]
       = replicate 4 (Some False) @ replicate 4 (Some True)
   \<and> extractContents TD_bytes False (FieldContents (SignedRange 4 12) (Some two_bytes_array) 0)
       = Inr (ConstantInt 8 255, FieldContents (SignedRange 4 12) (Some (ConstantInt 8 255)) 4)"
  by code_simp

end
